theory Spec2Isabelle
  imports Main "HOL-Library.Word"
begin

unbundle bit_operations_syntax

chapter \<open>DocBrown: the repository analysis pipeline and its cache\<close>

text \<open>
  Go strings are byte sequences; they are modelled as \<^typ>\<open>string\<close> (lists of 8-bit
  characters).  File paths and file contents are strings.  What the operating system
  answers (file contents, directory listings, the clock) is passed to each function
  explicitly.
\<close>

section \<open>crypto/sha256 and encoding/hex\<close>

text \<open>
  The cache digests with \<open>sha256.New()\<close>, \<open>h.Write\<close>, \<open>h.Sum(nil)\<close> and
  \<open>hex.EncodeToString\<close>.  \<open>sha256_Sum s\<close> is the FIPS 180-4 digest of everything
  written to the hasher.
\<close>

type_synonym u32 = "32 word"
type_synonym byte = "8 word"

definition rotr :: "nat \<Rightarrow> u32 \<Rightarrow> u32" where
  "rotr n x = drop_bit n x OR push_bit (32 - n) x"

definition Ch :: "u32 \<Rightarrow> u32 \<Rightarrow> u32 \<Rightarrow> u32" where
  "Ch x y z = (x AND y) XOR (NOT x AND z)"

definition Maj :: "u32 \<Rightarrow> u32 \<Rightarrow> u32 \<Rightarrow> u32" where
  "Maj x y z = (x AND y) XOR (x AND z) XOR (y AND z)"

definition bsig0 :: "u32 \<Rightarrow> u32" where
  "bsig0 x = rotr 2 x XOR rotr 13 x XOR rotr 22 x"

definition bsig1 :: "u32 \<Rightarrow> u32" where
  "bsig1 x = rotr 6 x XOR rotr 11 x XOR rotr 25 x"

definition ssig0 :: "u32 \<Rightarrow> u32" where
  "ssig0 x = rotr 7 x XOR rotr 18 x XOR drop_bit 3 x"

definition ssig1 :: "u32 \<Rightarrow> u32" where
  "ssig1 x = rotr 17 x XOR rotr 19 x XOR drop_bit 10 x"

definition sha256_K :: "u32 list" where
  "sha256_K = [
    0x428A2F98, 0x71374491, 0xB5C0FBCF, 0xE9B5DBA5, 0x3956C25B, 0x59F111F1, 0x923F82A4, 0xAB1C5ED5,
    0xD807AA98, 0x12835B01, 0x243185BE, 0x550C7DC3, 0x72BE5D74, 0x80DEB1FE, 0x9BDC06A7, 0xC19BF174,
    0xE49B69C1, 0xEFBE4786, 0x0FC19DC6, 0x240CA1CC, 0x2DE92C6F, 0x4A7484AA, 0x5CB0A9DC, 0x76F988DA,
    0x983E5152, 0xA831C66D, 0xB00327C8, 0xBF597FC7, 0xC6E00BF3, 0xD5A79147, 0x06CA6351, 0x14292967,
    0x27B70A85, 0x2E1B2138, 0x4D2C6DFC, 0x53380D13, 0x650A7354, 0x766A0ABB, 0x81C2C92E, 0x92722C85,
    0xA2BFE8A1, 0xA81A664B, 0xC24B8B70, 0xC76C51A3, 0xD192E819, 0xD6990624, 0xF40E3585, 0x106AA070,
    0x19A4C116, 0x1E376C08, 0x2748774C, 0x34B0BCB5, 0x391C0CB3, 0x4ED8AA4A, 0x5B9CCA4F, 0x682E6FF3,
    0x748F82EE, 0x78A5636F, 0x84C87814, 0x8CC70208, 0x90BEFFFA, 0xA4506CEB, 0xBEF9A3F7, 0xC67178F2]"

definition sha256_init :: "u32 list" where
  "sha256_init = [0x6A09E667, 0xBB67AE85, 0x3C6EF372, 0xA54FF53A,
                  0x510E527F, 0x9B05688C, 0x1F83D9AB, 0x5BE0CD19]"

fun extend :: "nat \<Rightarrow> u32 list \<Rightarrow> u32 list" where
  "extend 0 w = w"
| "extend (Suc n) w =
     (let t = length w in
      extend n (w @ [ssig1 (w ! (t - 2)) + w ! (t - 7) + ssig0 (w ! (t - 15)) + w ! (t - 16)]))"

fun sha_round :: "u32 list \<Rightarrow> u32 \<times> u32 \<Rightarrow> u32 list" where
  "sha_round [a, b, c, d, e, f, g, h] (k, w) =
     (let t1 = h + bsig1 e + Ch e f g + k + w;
          t2 = bsig0 a + Maj a b c
      in [t1 + t2, a, b, c, d + t1, e, f, g])"
| "sha_round st _ = st"

definition compress :: "u32 list \<Rightarrow> u32 list \<Rightarrow> u32 list" where
  "compress hs blk = map2 (+) hs (foldl sha_round hs (zip sha256_K (extend 48 blk)))"

definition be32 :: "byte \<Rightarrow> byte \<Rightarrow> byte \<Rightarrow> byte \<Rightarrow> u32" where
  "be32 a b c d =
     push_bit 24 (ucast a) OR push_bit 16 (ucast b) OR push_bit 8 (ucast c) OR ucast d"

fun be_words :: "byte list \<Rightarrow> u32 list" where
  "be_words (a # b # c # d # rest) = be32 a b c d # be_words rest"
| "be_words _ = []"

definition be64_bytes :: "int \<Rightarrow> byte list" where
  "be64_bytes n = map (\<lambda>i. word_of_int (n div 2 ^ (8 * i))) [7, 6, 5, 4, 3, 2, 1, 0]"

definition sha_pad :: "byte list \<Rightarrow> byte list" where
  "sha_pad bs =
     bs @ [0x80] @ replicate ((119 - length bs mod 64) mod 64) 0
        @ be64_bytes (int (length bs) * 8)"

fun blocks :: "nat \<Rightarrow> u32 list \<Rightarrow> u32 list list" where
  "blocks 0 ws = []"
| "blocks (Suc n) ws = take 16 ws # blocks n (drop 16 ws)"

definition word_bytes :: "u32 \<Rightarrow> byte list" where
  "word_bytes w = map (\<lambda>i. ucast (drop_bit (8 * i) w)) [3, 2, 1, 0]"

definition sha256_Sum :: "string \<Rightarrow> byte list" where
  "sha256_Sum s =
     (let ws = be_words (sha_pad (map of_char s))
      in concat (map word_bytes (foldl compress sha256_init (blocks (length ws div 16) ws))))"

definition hex_digit :: "byte \<Rightarrow> char" where
  "hex_digit n = ''0123456789abcdef'' ! unat n"

definition hex_EncodeToString :: "byte list \<Rightarrow> string" where
  "hex_EncodeToString bs = concat (map (\<lambda>b. [hex_digit (drop_bit 4 b), hex_digit (b AND 0x0f)]) bs)"

section \<open>package cache\<close>

text \<open>
  \<open>time.Time\<close> is a count of nanoseconds, \<open>time.Duration\<close> a 64-bit count of
  nanoseconds; \<open>Time.Sub\<close> saturates at the largest and smallest duration.
  \<open>time.Since t\<close> is \<open>time.Now().Sub(t)\<close>; the reading of the clock is the
  argument \<open>now\<close>.
\<close>

type_synonym time = int

definition maxDuration :: int where
  "maxDuration = 2 ^ 63 - 1"

definition minDuration :: int where
  "minDuration = - (2 ^ 63)"

definition time_Sub :: "time \<Rightarrow> time \<Rightarrow> int" where
  "time_Sub t u =
     (if t - u > maxDuration then maxDuration
      else if t - u < minDuration then minDuration
      else t - u)"

definition time_Since :: "time \<Rightarrow> time \<Rightarrow> int" where
  "time_Since now t = time_Sub now t"

record ComponentCache =
  Hash :: string
  FilesHash :: string
  LastGenerated :: time
  Files :: "string list"

record Cache =
  Version :: string
  LastRun :: time
  Components :: "string \<rightharpoonup> ComponentCache"

text \<open>The map of components is the one \<open>NewManager\<close> allocates; it is never
  \<open>nil\<close> in this model.\<close>

record Manager =
  cachePath :: string
  cache :: Cache
  enabled :: bool
  ttl :: int

definition NewManager :: "string \<Rightarrow> bool \<Rightarrow> int \<Rightarrow> Manager" where
  "NewManager path en t =
     \<lparr>cachePath = path,
      cache = \<lparr>Version = ''1.0'', LastRun = 0, Components = Map.empty\<rparr>,
      enabled = en,
      ttl = t\<rparr>"

text \<open>
  The files on disk as \<open>hashFiles\<close> sees them: \<open>disk file = Some content\<close> when
  \<open>os.Open file\<close> succeeds and \<open>io.Copy\<close> delivers \<open>content\<close>, \<open>None\<close> when the
  open fails; \<open>copied disk file\<close> is what reaches the hasher from the file.  \<open>hashFiles_written\<close> is the byte sequence the loop of \<open>hashFiles\<close>
  writes to the hasher: for each file its path, then its content if it opened.
\<close>

type_synonym disk = "string \<Rightarrow> string option"

definition copied :: "disk \<Rightarrow> string \<Rightarrow> string" where
  "copied disk file = (case disk file of Some content \<Rightarrow> content | None \<Rightarrow> [])"

primrec hashFiles_written :: "disk \<Rightarrow> string list \<Rightarrow> string" where
  "hashFiles_written disk [] = []"
| "hashFiles_written disk (file # files) =
     file @ copied disk file @ hashFiles_written disk files"

definition hashFiles :: "disk \<Rightarrow> string list \<Rightarrow> string" where
  "hashFiles disk files = hex_EncodeToString (sha256_Sum (hashFiles_written disk files))"

definition hashComponent :: "disk \<Rightarrow> string \<Rightarrow> string list \<Rightarrow> string" where
  "hashComponent disk name files =
     hex_EncodeToString (sha256_Sum (name @ hashFiles disk files))"

definition IsStale :: "Manager \<Rightarrow> time \<Rightarrow> disk \<Rightarrow> string \<Rightarrow> string list \<Rightarrow> bool" where
  "IsStale m now disk componentName files =
     (if \<not> enabled m then True
      else case Components (cache m) componentName of
        None \<Rightarrow> True
      | Some cached \<Rightarrow>
          if time_Since now (LastGenerated cached) > ttl m then True
          else if hashFiles disk files \<noteq> FilesHash cached then True
          else False)"

definition Update :: "Manager \<Rightarrow> time \<Rightarrow> disk \<Rightarrow> string \<Rightarrow> string list \<Rightarrow> Manager" where
  "Update m now disk componentName files =
     (if \<not> enabled m then m
      else m\<lparr>cache := (cache m)\<lparr>Components := (Components (cache m))(componentName \<mapsto>
             \<lparr>Hash = hashComponent disk componentName files,
              FilesHash = hashFiles disk files,
              LastGenerated = now,
              Files = files\<rparr>)\<rparr>\<rparr>)"


text \<open>
  Two different byte sequences with the same hexadecimal SHA-256 digest.  The cache
  cannot tell such inputs apart; none is known for SHA-256.
\<close>

definition digest_collision :: "string \<Rightarrow> string \<Rightarrow> bool" where
  "digest_collision a b =
     (a \<noteq> b \<and> hex_EncodeToString (sha256_Sum a) = hex_EncodeToString (sha256_Sum b))"


section \<open>Library functions: strings, path/filepath, regexp\<close>

text \<open>
  The functions of Go's \<open>strings\<close> package the analyzer calls, on byte strings
  (Go strings hold UTF-8 text as bytes).
\<close>

definition HasPrefix :: "string \<Rightarrow> string \<Rightarrow> bool" where
  "HasPrefix s p = (take (length p) s = p)"

definition HasSuffix :: "string \<Rightarrow> string \<Rightarrow> bool" where
  "HasSuffix s p = (length p \<le> length s \<and> drop (length s - length p) s = p)"

definition TrimPrefix :: "string \<Rightarrow> string \<Rightarrow> string" where
  "TrimPrefix s p = (if HasPrefix s p then drop (length p) s else s)"

primrec Contains :: "string \<Rightarrow> string \<Rightarrow> bool" where
  "Contains [] sub = (sub = [])"
| "Contains (c # cs) sub = (HasPrefix (c # cs) sub \<or> Contains cs sub)"

text \<open>
  \<open>strings.TrimSpace\<close> and \<open>strings.Fields\<close> cut at the characters of
  \<open>unicode.IsSpace\<close>: \<open>\t \n \v \f \r\<close>, the blank, U+0085, U+00A0, U+1680,
  U+2000 to U+200A, U+2028, U+2029, U+202F, U+205F and U+3000.  \<open>unicodeSpaces\<close> lists
  their UTF-8 encodings.  The first byte of an encoding is never a continuation byte, so
  an encoding stands at a position of the byte string exactly where Go's decoder finds
  that character, read from the front or from the back.  \<open>spaceAt s\<close> is the length
  of the white space character at the start of \<open>s\<close>, \<open>spaceBefore r\<close> that of the
  one at the end of the string whose reverse is \<open>r\<close>; 0 when there is none.
\<close>

definition unicodeSpaces :: "string list" where
  "unicodeSpaces =
     [[CHR 0x09], [CHR 0x0A], [CHR 0x0B], [CHR 0x0C], [CHR 0x0D], [CHR 0x20],
      [CHR 0xC2, CHR 0x85], [CHR 0xC2, CHR 0xA0],
      [CHR 0xE1, CHR 0x9A, CHR 0x80],
      [CHR 0xE2, CHR 0x80, CHR 0x80], [CHR 0xE2, CHR 0x80, CHR 0x81],
      [CHR 0xE2, CHR 0x80, CHR 0x82], [CHR 0xE2, CHR 0x80, CHR 0x83],
      [CHR 0xE2, CHR 0x80, CHR 0x84], [CHR 0xE2, CHR 0x80, CHR 0x85],
      [CHR 0xE2, CHR 0x80, CHR 0x86], [CHR 0xE2, CHR 0x80, CHR 0x87],
      [CHR 0xE2, CHR 0x80, CHR 0x88], [CHR 0xE2, CHR 0x80, CHR 0x89],
      [CHR 0xE2, CHR 0x80, CHR 0x8A],
      [CHR 0xE2, CHR 0x80, CHR 0xA8], [CHR 0xE2, CHR 0x80, CHR 0xA9],
      [CHR 0xE2, CHR 0x80, CHR 0xAF], [CHR 0xE2, CHR 0x81, CHR 0x9F],
      [CHR 0xE3, CHR 0x80, CHR 0x80]]"

definition spaceAt :: "string \<Rightarrow> nat" where
  "spaceAt s =
     (case find (\<lambda>w. HasPrefix s w) unicodeSpaces of Some w \<Rightarrow> length w | None \<Rightarrow> 0)"

definition spaceBefore :: "string \<Rightarrow> nat" where
  "spaceBefore r =
     (case find (\<lambda>w. HasPrefix r (rev w)) unicodeSpaces of Some w \<Rightarrow> length w | None \<Rightarrow> 0)"

text \<open>\<open>dropSpaces width 0 s\<close> drops the white space characters at the start of
  \<open>s\<close>; the number counts the bytes of the current character still to drop.\<close>

fun dropSpaces :: "(string \<Rightarrow> nat) \<Rightarrow> nat \<Rightarrow> string \<Rightarrow> string" where
  "dropSpaces width k [] = []"
| "dropSpaces width (Suc k) (c # cs) = dropSpaces width k cs"
| "dropSpaces width 0 (c # cs) =
     (case width (c # cs) of
        0 \<Rightarrow> c # cs
      | Suc n \<Rightarrow> dropSpaces width n cs)"

definition TrimSpace :: "string \<Rightarrow> string" where
  "TrimSpace s = rev (dropSpaces spaceBefore 0 (rev (dropSpaces spaceAt 0 s)))"

definition Trim :: "string \<Rightarrow> string \<Rightarrow> string" where
  "Trim s cutset =
     rev (dropWhile (\<lambda>c. c \<in> set cutset) (rev (dropWhile (\<lambda>c. c \<in> set cutset) s)))"

text \<open>
  \<open>splitOn P s\<close> cuts \<open>s\<close> at every character satisfying \<open>P\<close>; the empty string
  gives one empty piece.  \<open>Split s c\<close> is \<open>strings.Split\<close> for a separator of one
  character, as all calls of the analyzer have it.
\<close>

primrec splitOn :: "(char \<Rightarrow> bool) \<Rightarrow> string \<Rightarrow> string list" where
  "splitOn P [] = [[]]"
| "splitOn P (c # cs) =
     (if P c then [] # splitOn P cs
      else (case splitOn P cs of
              [] \<Rightarrow> [[c]]
            | piece # pieces \<Rightarrow> (c # piece) # pieces))"

definition Split :: "string \<Rightarrow> char \<Rightarrow> string list" where
  "Split s sep = splitOn (\<lambda>c. c = sep) s"

text \<open>\<open>splitSpaces 0 s\<close> cuts \<open>s\<close> at every white space character;
  \<open>strings.Fields\<close> keeps the pieces that are not empty.\<close>

fun splitSpaces :: "nat \<Rightarrow> string \<Rightarrow> string list" where
  "splitSpaces k [] = [[]]"
| "splitSpaces (Suc k) (c # cs) = splitSpaces k cs"
| "splitSpaces 0 (c # cs) =
     (case spaceAt (c # cs) of
        Suc n \<Rightarrow> [] # splitSpaces n cs
      | 0 \<Rightarrow> (case splitSpaces 0 cs of
                [] \<Rightarrow> [[c]]
              | piece # pieces \<Rightarrow> (c # piece) # pieces))"

definition Fields :: "string \<Rightarrow> string list" where
  "Fields s = filter (\<lambda>w. w \<noteq> []) (splitSpaces 0 s)"

definition isUpper :: "char \<Rightarrow> bool" where
  "isUpper c = (65 \<le> (of_char c :: nat) \<and> (of_char c :: nat) \<le> 90)"

definition isLower :: "char \<Rightarrow> bool" where
  "isLower c = (97 \<le> (of_char c :: nat) \<and> (of_char c :: nat) \<le> 122)"

definition isDigit :: "char \<Rightarrow> bool" where
  "isDigit c = (48 \<le> (of_char c :: nat) \<and> (of_char c :: nat) \<le> 57)"

text \<open>
  \<open>strings.ToLower\<close>, as far as a comparison with ASCII text can tell: the capitals
  \<open>A\<close> to \<open>Z\<close> become small letters, and so do the two characters outside ASCII
  whose lower case is an ASCII letter, U+212A (\<open>k\<close>) and U+0130 (\<open>i\<close>).  Every
  other character outside ASCII is left as it is here, where Go writes its lower case,
  again outside ASCII: the result equals, or contains, a given ASCII string here exactly
  when it does in Go, which is all the analyzer asks of it.
\<close>

fun toLowerFrom :: "nat \<Rightarrow> string \<Rightarrow> string" where
  "toLowerFrom k [] = []"
| "toLowerFrom (Suc k) (c # cs) = toLowerFrom k cs"
| "toLowerFrom 0 (c # cs) =
     (if HasPrefix (c # cs) [CHR 0xE2, CHR 0x84, CHR 0xAA] then CHR ''k'' # toLowerFrom 2 cs
      else if HasPrefix (c # cs) [CHR 0xC4, CHR 0xB0] then CHR ''i'' # toLowerFrom 1 cs
      else (if isUpper c then char_of (of_char c + (32::nat)) else c) # toLowerFrom 0 cs)"

definition ToLower :: "string \<Rightarrow> string" where
  "ToLower s = toLowerFrom 0 s"

text \<open>
  \<open>filepath.Clean\<close> on Unix: empty and \<open>.\<close> elements go, an inner \<open>..\<close> removes
  the element before it, a \<open>..\<close> at the start of a rooted path goes, the empty result
  is \<open>.\<close>.  \<open>clean_elems\<close> runs over the elements with the kept ones in reverse.
\<close>

primrec clean_elems :: "bool \<Rightarrow> string list \<Rightarrow> string list \<Rightarrow> string list" where
  "clean_elems rooted out [] = rev out"
| "clean_elems rooted out (e # es) =
     (if e = [] \<or> e = ''.'' then clean_elems rooted out es
      else if e = ''..'' then
        (case out of
           [] \<Rightarrow> clean_elems rooted (if rooted then [] else [''..'']) es
         | prev # below \<Rightarrow>
             if prev = ''..'' then clean_elems rooted (''..'' # out) es
             else clean_elems rooted below es)
      else clean_elems rooted (e # out) es)"

primrec joinWith :: "string \<Rightarrow> string list \<Rightarrow> string" where
  "joinWith sep [] = []"
| "joinWith sep (e # es) = (if es = [] then e else e @ sep @ joinWith sep es)"

definition Clean :: "string \<Rightarrow> string" where
  "Clean path =
     (if path = [] then ''.''
      else let rooted = HasPrefix path ''/'';
               kept = joinWith ''/'' (clean_elems rooted [] (Split path CHR ''/''))
           in if rooted then ''/'' @ kept
              else if kept = [] then ''.'' else kept)"

text \<open>\<open>filepath.Join\<close>: the non-empty elements joined by \<open>/\<close> and cleaned; the empty
  string when every element is empty.\<close>

definition Join :: "string list \<Rightarrow> string" where
  "Join elems =
     (let es = filter (\<lambda>e. e \<noteq> []) elems
      in if es = [] then [] else Clean (joinWith ''/'' es))"

text \<open>
  \<open>regexp.FindAllStringSubmatch text (-1)\<close> for a pattern that matches no empty string:
  \<open>at s\<close> is the match of the pattern at the start of \<open>s\<close>, as its captures and the
  length of the match; the matches are the leftmost ones, none overlapping another.
  \<open>FindAll at skip text\<close> skips \<open>skip\<close> characters (the rest of the last match) first.
\<close>

fun FindAll :: "(string \<Rightarrow> ('c \<times> nat) option) \<Rightarrow> nat \<Rightarrow> string \<Rightarrow> 'c list" where
  "FindAll at skip [] = []"
| "FindAll at (Suc k) (c # cs) = FindAll at k cs"
| "FindAll at 0 (c # cs) =
     (case at (c # cs) of
        None \<Rightarrow> FindAll at 0 cs
      | Some (cap, n) \<Rightarrow> cap # FindAll at (n - 1) cs)"

text \<open>\<open>regexp.FindStringSubmatch\<close> for such a pattern: the leftmost match, if any.\<close>

primrec FindFirst :: "(string \<Rightarrow> 'c option) \<Rightarrow> string \<Rightarrow> 'c option" where
  "FindFirst at [] = None"
| "FindFirst at (c # cs) =
     (case at (c # cs) of
        None \<Rightarrow> FindFirst at cs
      | Some cap \<Rightarrow> Some cap)"

text \<open>The longest run of characters satisfying \<open>P\<close> at the start of a string, and the
  rest: what a greedy character class takes when the pattern goes on with a character
  outside the class.\<close>

definition run :: "(char \<Rightarrow> bool) \<Rightarrow> string \<Rightarrow> string \<times> string" where
  "run P s = (takeWhile P s, dropWhile P s)"

text \<open>White space of the regular expressions, \<open>\s\<close>: \<open>\t \n \f \r\<close> and the blank.\<close>

definition reSpace :: "char \<Rightarrow> bool" where
  "reSpace c = (c \<in> set [CHR 0x09, CHR 0x0A, CHR 0x0C, CHR 0x0D, CHR '' ''])"

definition dquote :: char where
  "dquote = CHR 0x22"

definition squote :: char where
  "squote = CHR 0x27"

definition isQuote :: "char \<Rightarrow> bool" where
  "isQuote c = (c = squote \<or> c = dquote)"

text \<open>\<open>filepath.Base\<close>, \<open>filepath.Dir\<close> and \<open>filepath.Ext\<close> on Unix.\<close>

definition Base :: "string \<Rightarrow> string" where
  "Base path =
     (if path = [] then ''.''
      else let stripped = rev (dropWhile (\<lambda>c. c = CHR ''/'') (rev path));
               elem = rev (takeWhile (\<lambda>c. c \<noteq> CHR ''/'') (rev stripped))
           in if elem = [] then ''/'' else elem)"

definition Dir :: "string \<Rightarrow> string" where
  "Dir path = Clean (rev (dropWhile (\<lambda>c. c \<noteq> CHR ''/'') (rev path)))"

definition Ext :: "string \<Rightarrow> string" where
  "Ext path =
     (let elem = rev (takeWhile (\<lambda>c. c \<noteq> CHR ''/'') (rev path))
      in if CHR ''.'' \<in> set elem
         then CHR ''.'' # rev (takeWhile (\<lambda>c. c \<noteq> CHR ''.'') (rev elem))
         else [])"

text \<open>
  \<open>filepath.Rel\<close> on Unix; \<open>None\<close> is its error.  Both paths are cleaned, equal
  paths give \<open>.\<close>, a rooted and an unrooted path have no relative path.  Then the
  elements the two have in common at the front go (\<open>dropCommon\<close>); for every element
  left of the base one \<open>..\<close> is written, then what is left of the target.  The
  program roots the analyzer at \<open>.\<close> and this is \<open>filepath.Rel\<close> for that base, on
  which every property below rests; for another base it is the scheme just given and
  can differ from Go in the corner cases of \<open>.\<close> and \<open>..\<close> (Go gives \<open>..\<close> for
  base \<open>a\<close> and target \<open>.\<close>, this gives \<open>../.\<close>).
\<close>

fun dropCommon :: "string list \<Rightarrow> string list \<Rightarrow> string list \<times> string list" where
  "dropCommon (b # bs) (t # ts) = (if b = t then dropCommon bs ts else (b # bs, t # ts))"
| "dropCommon bs ts = (bs, ts)"

definition relElems :: "string \<Rightarrow> string list" where
  "relElems s = (if s = [] then [] else if s = ''/'' then [[]] else Split s CHR ''/'')"

definition Rel :: "string \<Rightarrow> string \<Rightarrow> string option" where
  "Rel basepath targpath =
     (let base0 = Clean basepath; targ = Clean targpath in
      if targ = base0 then Some ''.''
      else let base = (if base0 = ''.'' then [] else base0) in
        if HasPrefix base ''/'' \<noteq> HasPrefix targ ''/'' then None
        else (case dropCommon (relElems base) (relElems targ) of
          (bs, ts) \<Rightarrow>
            if bs \<noteq> [] \<and> ts \<noteq> [] \<and> hd bs = ''..'' then None
            else if bs \<noteq> [] then
              Some (joinWith ''/'' (replicate (length bs) ''..'' @ (if ts = [] then [] else [joinWith ''/'' ts])))
            else Some (joinWith ''/'' ts)))"

section \<open>filepath.Walk\<close>

text \<open>
  What \<open>filepath.Walk\<close> finds below a path: a file (any entry that is no directory,
  a symbolic link included, since \<open>Walk\<close> uses \<open>Lstat\<close>) with its size, a directory
  with its entries sorted by name, a directory that cannot be listed, or an entry on
  which \<open>Lstat\<close> fails.
\<close>

datatype node =
    File int
  | Directory "(string \<times> node) list"
  | Unlistable
  | NoLstat

datatype os_error = LstatFailed string | ReadDirFailed string

text \<open>\<open>os.FileInfo\<close>: \<open>IsDir\<close> and \<open>Size\<close>.\<close>

datatype os_FileInfo = Info (IsDir: bool) (Size: int)

fun lstat :: "node \<Rightarrow> os_FileInfo" where
  "lstat (File sz) = Info False sz"
| "lstat _ = Info True 0"

text \<open>What a \<open>WalkFunc\<close> returns: \<open>nil\<close>, \<open>filepath.SkipDir\<close> or another error.\<close>

datatype walk_result = Continue | SkipDir | Failed os_error

type_synonym 's WalkFunc =
  "'s \<Rightarrow> string \<Rightarrow> os_FileInfo option \<Rightarrow> os_error option \<Rightarrow> 's \<times> walk_result"

text \<open>
  \<open>walk\<close> is the function \<open>walk\<close> of \<open>path/filepath\<close>, \<open>walkNames\<close> its loop over
  the names of a directory; the state \<open>'s\<close> is what the callback changes.
\<close>

fun walk :: "'s WalkFunc \<Rightarrow> string \<Rightarrow> node \<Rightarrow> 's \<Rightarrow> 's \<times> walk_result"
and walkNames :: "'s WalkFunc \<Rightarrow> string \<Rightarrow> (string \<times> node) list \<Rightarrow> 's \<Rightarrow> 's \<times> walk_result" where
  "walk fn path (File sz) st = fn st path (Some (Info False sz)) None"
| "walk fn path Unlistable st = fn st path (Some (Info True 0)) (Some (ReadDirFailed path))"
| "walk fn path NoLstat st = fn st path None (Some (LstatFailed path))"
| "walk fn path (Directory entries) st =
     (case fn st path (Some (Info True 0)) None of
        (st', Continue) \<Rightarrow> walkNames fn path entries st'
      | (st', result) \<Rightarrow> (st', result))"
| "walkNames fn path [] st = (st, Continue)"
| "walkNames fn path ((name, child) # rest) st =
     (let filename = Join [path, name] in
      case child of
        NoLstat \<Rightarrow>
          (case fn st filename None (Some (LstatFailed filename)) of
             (st', Failed err) \<Rightarrow> (st', Failed err)
           | (st', _) \<Rightarrow> walkNames fn path rest st')
      | _ \<Rightarrow>
          (case walk fn filename child st of
             (st', Continue) \<Rightarrow> walkNames fn path rest st'
           | (st', SkipDir) \<Rightarrow>
               if IsDir (lstat child) then walkNames fn path rest st' else (st', SkipDir)
           | (st', Failed err) \<Rightarrow> (st', Failed err)))"

text \<open>\<open>filepath.Walk\<close>: the error it returns, if any, and the state.\<close>

definition Walk :: "'s WalkFunc \<Rightarrow> string \<Rightarrow> node \<Rightarrow> 's \<Rightarrow> 's \<times> os_error option" where
  "Walk fn root tree st =
     (case walk fn root tree st of
        (st', Failed err) \<Rightarrow> (st', Some err)
      | (st', _) \<Rightarrow> (st', None))"

section \<open>package analyzer: types and the operating system\<close>

record Dependency =
  dep_Name :: string
  dep_Version :: string
  dep_Type :: string

record Endpoint =
  ep_Method :: string
  ep_Path :: string
  ep_Description :: string

record Component =
  comp_Name :: string
  comp_Type :: string
  comp_Language :: string
  comp_Path :: string
  comp_Files :: "string list"
  comp_Description :: string
  comp_HasTests :: bool
  comp_Dependencies :: "Dependency list"
  comp_Endpoints :: "Endpoint list"
  comp_EntryPoint :: string

text \<open>
  What the operating system answers to the calls of the analyzer.  \<open>None\<close> stands for
  a call that returns an error.  \<open>ReadDir\<close> gives the entries of a directory sorted by
  name, each with its \<open>IsDir\<close>; \<open>Stat\<close> gives \<open>IsDir\<close> of the file; \<open>Glob\<close> gives the
  matches of \<open>filepath.Glob\<close>, whose error the analyzer drops; \<open>Tree\<close> gives what
  \<open>filepath.Walk\<close> finds from a path down.
\<close>

record os =
  ReadFile :: "string \<Rightarrow> string option"
  ReadDir :: "string \<Rightarrow> (string \<times> bool) list option"
  Stat :: "string \<Rightarrow> bool option"
  Glob :: "string \<Rightarrow> string list"
  Tree :: "string \<Rightarrow> node"

definition external :: "string \<Rightarrow> string \<Rightarrow> Dependency" where
  "external name version = \<lparr>dep_Name = name, dep_Version = version, dep_Type = ''external''\<rparr>"

section \<open>MetadataExtractor\<close>

text \<open>The manifest \<open>name\<close> of the component at \<open>path\<close>:
  \<open>filepath.Join(path, name)\<close>, and \<open>name\<close> itself when \<open>path\<close> is \<open>.\<close>.\<close>

definition manifestPath :: "string \<Rightarrow> string \<Rightarrow> string" where
  "manifestPath path name = (if path = ''.'' then name else Join [path, name])"

text \<open>\<open>extractGoDependencies\<close>: the loop body on one line, on the state
  \<open>(inRequire, deps)\<close>.\<close>

definition goModLine :: "bool \<times> Dependency list \<Rightarrow> string \<Rightarrow> bool \<times> Dependency list" where
  "goModLine st raw =
     (case st of (inRequire, deps) \<Rightarrow>
        let line = TrimSpace raw in
        if HasPrefix line ''require ('' then (True, deps)
        else if inRequire \<and> line = '')'' then (False, deps)
        else if HasPrefix line ''require '' \<or> inRequire then
          (let parts = Fields (TrimPrefix line ''require '') in
           if length parts \<ge> 2
           then (inRequire, deps @ [external (parts ! 0) (parts ! 1)])
           else (inRequire, deps))
        else (inRequire, deps))"

definition extractGoDependencies :: "os \<Rightarrow> string \<Rightarrow> Dependency list" where
  "extractGoDependencies os path =
     (case ReadFile os (manifestPath path ''go.mod'') of
        None \<Rightarrow> []
      | Some content \<Rightarrow> snd (foldl goModLine (False, []) (Split content CHR 0x0A)))"

text \<open>The pattern \<open>^([a-zA-Z0-9_-]+)([>=<~!]+)?(.*)$\<close> on one line: the name and the
  third group.\<close>

definition isNameChar :: "char \<Rightarrow> bool" where
  "isNameChar c = (isLower c \<or> isUpper c \<or> isDigit c \<or> c = CHR ''_'' \<or> c = CHR ''-'')"

definition isOpChar :: "char \<Rightarrow> bool" where
  "isOpChar c = (c \<in> set ''>=<~!'')"

definition requirementMatch :: "string \<Rightarrow> (string \<times> string) option" where
  "requirementMatch line =
     (case run isNameChar line of
        (name, rest) \<Rightarrow> if name = [] then None else Some (name, dropWhile isOpChar rest))"

definition requirementsLine :: "Dependency list \<Rightarrow> string \<Rightarrow> Dependency list" where
  "requirementsLine deps raw =
     (let line = TrimSpace raw in
      if line = [] \<or> HasPrefix line ''#'' then deps
      else (case requirementMatch line of
              None \<Rightarrow> deps
            | Some (name, version) \<Rightarrow> deps @ [external name version]))"

text \<open>The section scan of \<open>pyproject.toml\<close> and \<open>Cargo.toml\<close>: \<open>header line\<close> says
  whether the line opens the dependency section.\<close>

definition sectionLine ::
  "(string \<Rightarrow> bool) \<Rightarrow> bool \<times> Dependency list \<Rightarrow> string \<Rightarrow> bool \<times> Dependency list" where
  "sectionLine header st raw =
     (case st of (inDeps, deps) \<Rightarrow>
        let line = TrimSpace raw in
        if header line then (True, deps)
        else if inDeps \<and> HasPrefix line ''['' then (False, deps)
        else if inDeps \<and> Contains line ''='' then
          (let parts = Split line CHR ''='' in
           if length parts \<ge> 2
           then (inDeps, deps @ [external (TrimSpace (parts ! 0))
                                   (Trim (TrimSpace (parts ! 1)) [dquote, squote])])
           else (inDeps, deps))
        else (inDeps, deps))"

definition extractPythonDependencies :: "os \<Rightarrow> string \<Rightarrow> Dependency list" where
  "extractPythonDependencies os path =
     (case ReadFile os (manifestPath path ''requirements.txt'') of
        Some content \<Rightarrow> foldl requirementsLine [] (Split content CHR 0x0A)
      | None \<Rightarrow>
          (case ReadFile os (manifestPath path ''pyproject.toml'') of
             None \<Rightarrow> []
           | Some content \<Rightarrow>
               snd (foldl (sectionLine (\<lambda>line. Contains line ''[tool.poetry.dependencies]''
                                              \<or> Contains line ''[project.dependencies]''))
                      (False, []) (Split content CHR 0x0A))))"

text \<open>
  \<open>json.Unmarshal\<close> into the struct of \<open>extractNodeDependencies\<close> is the parameter
  \<open>unmarshal\<close>: \<open>None\<close> when it returns an error, else the entries of the decoded
  \<open>dependencies\<close> object in the order the \<open>range\<close> loop visits them.
\<close>

definition extractNodeDependencies ::
  "(string \<Rightarrow> (string \<times> string) list option) \<Rightarrow> os \<Rightarrow> string \<Rightarrow> Dependency list" where
  "extractNodeDependencies unmarshal os path =
     (case ReadFile os (manifestPath path ''package.json'') of
        None \<Rightarrow> []
      | Some content \<Rightarrow>
          (case unmarshal content of
             None \<Rightarrow> []
           | Some dependencies \<Rightarrow> map (\<lambda>(name, version). external name version) dependencies))"

definition extractRustDependencies :: "os \<Rightarrow> string \<Rightarrow> Dependency list" where
  "extractRustDependencies os path =
     (case ReadFile os (manifestPath path ''Cargo.toml'') of
        None \<Rightarrow> []
      | Some content \<Rightarrow>
          snd (foldl (sectionLine (\<lambda>line. HasPrefix line ''[dependencies]''))
                 (False, []) (Split content CHR 0x0A)))"

text \<open>The patterns \<open><groupId>([^<]+)</groupId>\<close>, \<open><artifactId>([^<]+)</artifactId>\<close>
  and \<open><version>([^<]+)</version>\<close> at the start of a string: the group and the length
  of the match.\<close>

definition tagAt :: "string \<Rightarrow> string \<Rightarrow> (string \<times> nat) option" where
  "tagAt tag s =
     (let otag = ''<'' @ tag @ ''>''; ctag = ''</'' @ tag @ ''>'' in
      if HasPrefix s otag then
        (case run (\<lambda>c. c \<noteq> CHR ''<'') (drop (length otag) s) of
           (body, rest) \<Rightarrow>
             if body \<noteq> [] \<and> HasPrefix rest ctag
             then Some (body, length otag + length body + length ctag)
             else None)
      else None)"

definition pomDependencies :: "string \<Rightarrow> Dependency list" where
  "pomDependencies text =
     (let groups = FindAll (tagAt ''groupId'') 0 text;
          artifacts = FindAll (tagAt ''artifactId'') 0 text;
          versions = FindAll (tagAt ''version'') 0 text
      in map (\<lambda>i. external (groups ! i @ '':'' @ artifacts ! i)
                            (if i < length versions then versions ! i else []))
             [0 ..< min (length groups) (length artifacts)])"

text \<open>The pattern \<open>['"]([^:]+):([^:]+):([^'"]+)['"]\<close> at the start of a string: its
  three groups.\<close>

definition gradleAt :: "string \<Rightarrow> (string \<times> string \<times> string) option" where
  "gradleAt s =
     (case s of
        [] \<Rightarrow> None
      | q # s1 \<Rightarrow>
          if \<not> isQuote q then None
          else (case run (\<lambda>c. c \<noteq> CHR '':'') s1 of (g1, s2) \<Rightarrow>
            if g1 = [] \<or> s2 = [] then None
            else (case run (\<lambda>c. c \<noteq> CHR '':'') (tl s2) of (g2, s3) \<Rightarrow>
              if g2 = [] \<or> s3 = [] then None
              else (case run (\<lambda>c. \<not> isQuote c) (tl s3) of (g3, s4) \<Rightarrow>
                if g3 = [] \<or> s4 = [] then None
                else Some (g1, g2, g3)))))"

definition gradleLine :: "Dependency list \<Rightarrow> string \<Rightarrow> Dependency list" where
  "gradleLine deps raw =
     (let line = TrimSpace raw in
      if Contains line ''implementation'' \<or> Contains line ''compile'' then
        (case FindFirst gradleAt line of
           None \<Rightarrow> deps
         | Some (g1, g2, g3) \<Rightarrow> deps @ [external (g1 @ '':'' @ g2) g3])
      else deps)"

definition extractJavaDependencies :: "os \<Rightarrow> string \<Rightarrow> Dependency list" where
  "extractJavaDependencies os path =
     (case ReadFile os (manifestPath path ''pom.xml'') of
        Some content \<Rightarrow> pomDependencies content
      | None \<Rightarrow>
          (case ReadFile os (manifestPath path ''build.gradle'') of
             None \<Rightarrow> []
           | Some content \<Rightarrow> foldl gradleLine [] (Split content CHR 0x0A)))"

text \<open>The pattern \<open>gem\s+['"]([^'"]+)['"]\s*,?\s*['"]?([^'"]*)['"]?\<close> at the start of a
  string: its two groups.\<close>

definition gemAt :: "string \<Rightarrow> (string \<times> string) option" where
  "gemAt s =
     (if \<not> HasPrefix s ''gem'' then None
      else (case run reSpace (drop 3 s) of (ws, s1) \<Rightarrow>
        if ws = [] \<or> s1 = [] \<or> \<not> isQuote (hd s1) then None
        else (case run (\<lambda>c. \<not> isQuote c) (tl s1) of (name, s2) \<Rightarrow>
          if name = [] \<or> s2 = [] then None
          else (let s3 = dropWhile reSpace (tl s2);
                    s4 = (if HasPrefix s3 '','' then tl s3 else s3);
                    s5 = dropWhile reSpace s4;
                    s6 = (if s5 \<noteq> [] \<and> isQuote (hd s5) then tl s5 else s5)
                in Some (name, takeWhile (\<lambda>c. \<not> isQuote c) s6)))))"

definition gemfileLine :: "Dependency list \<Rightarrow> string \<Rightarrow> Dependency list" where
  "gemfileLine deps raw =
     (let line = TrimSpace raw in
      if HasPrefix line ''gem '' then
        (case FindFirst gemAt line of
           None \<Rightarrow> deps
         | Some (name, version) \<Rightarrow> deps @ [external name version])
      else deps)"

definition extractRubyDependencies :: "os \<Rightarrow> string \<Rightarrow> Dependency list" where
  "extractRubyDependencies os path =
     (case ReadFile os (manifestPath path ''Gemfile'') of
        None \<Rightarrow> []
      | Some content \<Rightarrow> foldl gemfileLine [] (Split content CHR 0x0A))"

text \<open>The pattern \<open><PackageReference\s+Include="([^"]+)"\s+Version="([^"]+)"\<close> at the
  start of a string: its two groups and the length of the match.\<close>

definition packageReferenceAt :: "string \<Rightarrow> ((string \<times> string) \<times> nat) option" where
  "packageReferenceAt s =
     (if \<not> HasPrefix s ''<PackageReference'' then None
      else (case run reSpace (drop 17 s) of (ws1, s1) \<Rightarrow>
        if ws1 = [] \<or> \<not> HasPrefix s1 (''Include='' @ [dquote]) then None
        else (case run (\<lambda>c. c \<noteq> dquote) (drop 9 s1) of (name, s2) \<Rightarrow>
          if name = [] \<or> s2 = [] then None
          else (case run reSpace (tl s2) of (ws2, s3) \<Rightarrow>
            if ws2 = [] \<or> \<not> HasPrefix s3 (''Version='' @ [dquote]) then None
            else (case run (\<lambda>c. c \<noteq> dquote) (drop 9 s3) of (version, s4) \<Rightarrow>
              if version = [] \<or> s4 = [] then None
              else Some ((name, version), Suc (length s - length s4)))))))"

definition csprojFile :: "os \<Rightarrow> string \<Rightarrow> Dependency list \<Rightarrow> string \<times> bool \<Rightarrow> Dependency list" where
  "csprojFile os path deps file =
     (case file of (name, isDir) \<Rightarrow>
        if \<not> isDir \<and> HasSuffix name ''.csproj'' then
          (case ReadFile os (Join [path, name]) of
             None \<Rightarrow> deps
           | Some content \<Rightarrow>
               deps @ map (\<lambda>(n, v). external n v) (FindAll packageReferenceAt 0 content))
        else deps)"

definition extractCSharpDependencies :: "os \<Rightarrow> string \<Rightarrow> Dependency list" where
  "extractCSharpDependencies os path =
     (case ReadDir os path of
        None \<Rightarrow> []
      | Some files \<Rightarrow> foldl (csprojFile os path) [] files)"

definition ExtractDependencies ::
  "(string \<Rightarrow> (string \<times> string) list option) \<Rightarrow> os \<Rightarrow> Component \<Rightarrow> Dependency list" where
  "ExtractDependencies unmarshal os c =
     (let lang = comp_Language c; path = comp_Path c in
      if lang = ''go'' then extractGoDependencies os path
      else if lang = ''python'' then extractPythonDependencies os path
      else if lang = ''javascript'' \<or> lang = ''typescript'' then
        extractNodeDependencies unmarshal os path
      else if lang = ''rust'' then extractRustDependencies os path
      else if lang = ''java'' then extractJavaDependencies os path
      else if lang = ''ruby'' then extractRubyDependencies os path
      else if lang = ''csharp'' then extractCSharpDependencies os path
      else [])"

section \<open>Test files, source files and languages\<close>

definition isTestFile :: "string \<Rightarrow> bool" where
  "isTestFile path =
     (list_ex (\<lambda>pattern. HasSuffix (Base path) pattern)
        [''_test.go'', ''_test.py'', ''.test.js'', ''.test.ts'', ''.spec.js'', ''.spec.ts'',
         ''Test.java'']
      \<or> Contains path ''/test/'' \<or> Contains path ''/tests/'')"

definition isSourceFile :: "string \<Rightarrow> bool" where
  "isSourceFile path =
     list_ex (\<lambda>sourceExt. ToLower (Ext path) = sourceExt)
       [''.go'', ''.py'', ''.js'', ''.ts'', ''.jsx'', ''.tsx'',
        ''.java'', ''.rs'', ''.rb'', ''.php'', ''.c'', ''.cpp'']"



section \<open>Detector\<close>

record Detector =
  rootPath :: string

definition fileExists :: "os \<Rightarrow> Detector \<Rightarrow> string \<Rightarrow> bool" where
  "fileExists os d path = (Stat os (Join [rootPath d, path]) \<noteq> None)"

definition dirHasFile :: "os \<Rightarrow> string \<Rightarrow> string \<Rightarrow> bool" where
  "dirHasFile os dir pattern = (Glob os (Join [dir, pattern]) \<noteq> [])"

text \<open>\<open>dirContains\<close> drops the error of \<open>os.ReadDir\<close>; a failed listing is taken to
  have no entries.\<close>

definition dirContains :: "os \<Rightarrow> string \<Rightarrow> string \<Rightarrow> bool" where
  "dirContains os dir substring =
     (case ReadDir os dir of
        None \<Rightarrow> False
      | Some files \<Rightarrow> list_ex (\<lambda>file. Contains (ToLower (fst file)) substring) files)"

definition detectGoComponentType :: "os \<Rightarrow> Detector \<Rightarrow> string" where
  "detectGoComponentType os d =
     (if fileExists os d ''cmd'' \<or> fileExists os d ''main.go'' then ''service'' else ''library'')"

definition detectPythonComponentType :: "os \<Rightarrow> Detector \<Rightarrow> string" where
  "detectPythonComponentType os d =
     (if fileExists os d ''Dockerfile'' then ''service'' else ''library'')"

definition detectNodeComponentType :: "os \<Rightarrow> Detector \<Rightarrow> string" where
  "detectNodeComponentType os d =
     (if fileExists os d ''Dockerfile'' then ''service'' else ''library'')"

definition extractGoModuleName :: "Detector \<Rightarrow> string" where
  "extractGoModuleName d = Base (rootPath d)"

definition extractPythonPackageName :: "Detector \<Rightarrow> string" where
  "extractPythonPackageName d = Base (rootPath d)"

definition extractNodePackageName :: "Detector \<Rightarrow> string" where
  "extractNodePackageName d = Base (rootPath d)"

text \<open>The zero value of \<open>Component\<close>.\<close>

definition zeroComponent :: Component where
  "zeroComponent =
     \<lparr>comp_Name = [], comp_Type = [], comp_Language = [], comp_Path = [], comp_Files = [],
      comp_Description = [], comp_HasTests = False, comp_Dependencies = [],
      comp_Endpoints = [], comp_EntryPoint = []\<rparr>"

text \<open>\<open>analyzeDirectory\<close> never returns \<open>nil\<close>.\<close>

definition analyzeDirectory :: "os \<Rightarrow> string \<Rightarrow> Component" where
  "analyzeDirectory os dir =
     zeroComponent
       \<lparr>comp_Path := dir,
        comp_Name := Base dir,
        comp_Language :=
          (if dirHasFile os dir ''*.go'' then ''go''
           else if dirHasFile os dir ''*.py'' then ''python''
           else if dirHasFile os dir ''*.ts'' \<or> dirHasFile os dir ''*.js'' then ''typescript''
           else if dirHasFile os dir ''*.rs'' then ''rust''
           else if dirHasFile os dir ''*.java'' then ''java''
           else if dirHasFile os dir ''*.rb'' then ''ruby''
           else if dirHasFile os dir ''*.cs'' then ''csharp''
           else []),
        comp_Type :=
          (if dirHasFile os dir ''Dockerfile'' then ''service''
           else if dirHasFile os dir ''package.json'' then
             (if dirContains os dir ''react'' \<or> dirContains os dir ''vue''
                 \<or> dirContains os dir ''angular''
              then ''frontend'' else ''service'')
           else ''library'')\<rparr>"

definition detectMonorepo :: "os \<Rightarrow> Detector \<Rightarrow> Component list" where
  "detectMonorepo os d =
     concat (map (\<lambda>pattern.
               concat (map (\<lambda>dir. if Stat os dir = Some True then [analyzeDirectory os dir] else [])
                         (Glob os (Join [rootPath d, pattern]))))
             [''services/*'', ''apps/*'', ''packages/*'', ''libs/*''])"

definition detectSingleComponent :: "os \<Rightarrow> Detector \<Rightarrow> Component option" where
  "detectSingleComponent os d =
     (let c = zeroComponent\<lparr>comp_Path := ''.''\<rparr> in
      if fileExists os d ''go.mod'' then
        Some (c\<lparr>comp_Language := ''go'', comp_Type := detectGoComponentType os d,
                comp_Name := extractGoModuleName d\<rparr>)
      else if fileExists os d ''setup.py'' \<or> fileExists os d ''pyproject.toml'' then
        Some (c\<lparr>comp_Language := ''python'', comp_Type := detectPythonComponentType os d,
                comp_Name := extractPythonPackageName d\<rparr>)
      else if fileExists os d ''package.json'' then
        Some (c\<lparr>comp_Language := ''javascript'', comp_Type := detectNodeComponentType os d,
                comp_Name := extractNodePackageName d\<rparr>)
      else if fileExists os d ''Cargo.toml'' then
        Some (c\<lparr>comp_Language := ''rust'', comp_Type := ''service'',
                comp_Name := Base (rootPath d)\<rparr>)
      else if fileExists os d ''pom.xml'' \<or> fileExists os d ''build.gradle''
              \<or> fileExists os d ''build.gradle.kts'' then
        Some (c\<lparr>comp_Language := ''java'', comp_Type := ''service'',
                comp_Name := Base (rootPath d)\<rparr>)
      else if fileExists os d ''Gemfile'' then
        Some (c\<lparr>comp_Language := ''ruby'',
                comp_Type := (if fileExists os d ''config/routes.rb'' then ''service''
                              else ''library''),
                comp_Name := Base (rootPath d)\<rparr>)
      else if dirHasFile os ''.'' ''*.csproj'' \<or> fileExists os d ''*.sln'' then
        Some (c\<lparr>comp_Language := ''csharp'', comp_Type := ''service'',
                comp_Name := Base (rootPath d)\<rparr>)
      else None)"

definition detectByDirectory :: "os \<Rightarrow> Detector \<Rightarrow> Component list" where
  "detectByDirectory os d =
     concat (map (\<lambda>pattern.
               map (\<lambda>match. analyzeDirectory os (Dir match)) (Glob os (Join [rootPath d, pattern])))
             [''cmd/*'', ''src/main.*'', ''main.*''])"

text \<open>The callback of \<open>collectComponentFiles\<close>; the state is \<open>files\<close>.  A failing
  \<open>filepath.Rel\<close> leaves the empty path.\<close>

definition collectFn :: "Detector \<Rightarrow> string list WalkFunc" where
  "collectFn d files filePath info err =
     (if err \<noteq> None then (files, Continue)
      else case info of
        None \<Rightarrow> (files, Continue)
      | Some fi \<Rightarrow>
          if IsDir fi then
            (if Base filePath = ''node_modules'' \<or> Base filePath = ''vendor''
                \<or> Base filePath = ''.git''
             then (files, SkipDir) else (files, Continue))
          else if isSourceFile filePath then
            (files @ [case Rel (rootPath d) filePath of Some relPath \<Rightarrow> relPath | None \<Rightarrow> []],
             Continue)
          else (files, Continue))"

definition collectComponentFiles :: "os \<Rightarrow> Detector \<Rightarrow> string \<Rightarrow> string list" where
  "collectComponentFiles os d path = fst (Walk (collectFn d) path (Tree os path) [])"

definition hasTestsFn :: "bool WalkFunc" where
  "hasTestsFn found filePath info err =
     (if isTestFile filePath then (True, SkipDir) else (found, Continue))"

definition hasTests :: "os \<Rightarrow> string \<Rightarrow> bool" where
  "hasTests os path = fst (Walk hasTestsFn path (Tree os path) False)"

text \<open>The dependency extraction of the detector is a placeholder in the source: every
  branch returns no dependency.\<close>

definition Detector_extractDependencies :: "Component \<Rightarrow> Dependency list" where
  "Detector_extractDependencies c =
     (if comp_Language c = ''go'' then []
      else if comp_Language c = ''python'' then []
      else if comp_Language c = ''javascript'' \<or> comp_Language c = ''typescript'' then []
      else [])"

definition generateDescription :: "Component \<Rightarrow> string" where
  "generateDescription c = ''A '' @ comp_Language c @ '' '' @ comp_Type c @ '' component''"

definition enrichComponent :: "os \<Rightarrow> Detector \<Rightarrow> Component \<Rightarrow> Component" where
  "enrichComponent os d c =
     (let c1 = c\<lparr>comp_Files := collectComponentFiles os d (comp_Path c)\<rparr>;
          c2 = c1\<lparr>comp_HasTests := hasTests os (comp_Path c1)\<rparr>;
          c3 = c2\<lparr>comp_Dependencies := Detector_extractDependencies c2\<rparr>
      in if comp_Description c3 = [] then c3\<lparr>comp_Description := generateDescription c3\<rparr>
         else c3)"

text \<open>\<open>DetectComponents\<close>; the error it returns is always \<open>nil\<close>.\<close>

definition DetectComponents :: "os \<Rightarrow> Detector \<Rightarrow> Component list" where
  "DetectComponents os d =
     (let components1 = detectMonorepo os d;
          components2 =
            (if length components1 = 0
             then (case detectSingleComponent os d of
                     Some c \<Rightarrow> components1 @ [c]
                   | None \<Rightarrow> components1)
             else components1);
          components3 =
            (if length components2 = 0 then components2 @ detectByDirectory os d
             else components2)
      in map (enrichComponent os d) components3)"

text \<open>
  The manifest signatures of the single-component strategy in the fixed priority order
  the specification gives: each language with whether its signature is found at the
  root.  This list follows the specification; \<open>detectSingleComponent\<close> above follows
  the code.
\<close>

definition manifestSignatures :: "os \<Rightarrow> Detector \<Rightarrow> (string \<times> bool) list" where
  "manifestSignatures os d =
     [(''go'', fileExists os d ''go.mod''),
      (''python'', fileExists os d ''setup.py'' \<or> fileExists os d ''pyproject.toml''),
      (''javascript'', fileExists os d ''package.json''),
      (''rust'', fileExists os d ''Cargo.toml''),
      (''java'', fileExists os d ''pom.xml'' \<or> fileExists os d ''build.gradle''
                   \<or> fileExists os d ''build.gradle.kts''),
      (''ruby'', fileExists os d ''Gemfile''),
      (''csharp'', dirHasFile os ''.'' ''*.csproj'' \<or> fileExists os d ''*.sln'')]"

text \<open>
  What holds of the paths the detector works on when it is rooted at \<open>.\<close>: a component
  path that \<open>filepath.Glob\<close> or \<open>filepath.Dir\<close> produced is clean and relative, and the
  names a directory listing gives are neither empty, \<open>.\<close> nor \<open>..\<close> and hold no
  \<open>/\<close>.
\<close>

definition cleanRelative :: "string \<Rightarrow> bool" where
  "cleanRelative p = (Clean p = p \<and> \<not> HasPrefix p ''/'' \<and> p \<noteq> ''.'')"

definition plainName :: "string \<Rightarrow> bool" where
  "plainName name = (name \<noteq> [] \<and> name \<noteq> ''.'' \<and> name \<noteq> ''..'' \<and> CHR ''/'' \<notin> set name)"

fun plainNames :: "node \<Rightarrow> bool" where
  "plainNames (Directory entries) =
     (\<forall>entry \<in> set entries. plainName (fst entry) \<and> plainNames (snd entry))"
| "plainNames (File sz) = True"
| "plainNames Unlistable = True"
| "plainNames NoLstat = True"

section \<open>Scanner\<close>











chapter \<open>Properties\<close>

section \<open>The digest\<close>

lemma length_sha_round: "length (sha_round st kw) = length st"
  by (cases "(st, kw)" rule: sha_round.cases) (simp_all add: Let_def)

lemma length_foldl_sha_round: "length (foldl sha_round st kws) = length st"
  by (induction kws arbitrary: st) (simp_all add: length_sha_round)

lemma length_compress: "length (compress hs blk) = length hs"
  by (simp add: compress_def length_foldl_sha_round)

lemma length_foldl_compress: "length (foldl compress hs blks) = length hs"
  by (induction blks arbitrary: hs) (simp_all add: length_compress)

lemma length_concat_word_bytes: "length (concat (map word_bytes ws)) = 4 * length ws"
  by (induction ws) (simp_all add: word_bytes_def)

lemma length_sha256_Sum: "length (sha256_Sum s) = 32"
  by (simp add: sha256_Sum_def Let_def length_concat_word_bytes length_foldl_compress
      sha256_init_def)

lemma length_hex_EncodeToString: "length (hex_EncodeToString bs) = 2 * length bs"
  by (induction bs) (simp_all add: hex_EncodeToString_def)

lemma length_hashFiles: "length (hashFiles disk files) = 64"
  by (simp add: hashFiles_def length_hex_EncodeToString length_sha256_Sum)

lemma hashFiles_written_append:
  "hashFiles_written disk (xs @ ys) = hashFiles_written disk xs @ hashFiles_written disk ys"
  by (induction xs) simp_all

lemma hashFiles_written_cong:
  "(\<And>f. f \<in> set files \<Longrightarrow> copied disk' f = copied disk f) \<Longrightarrow>
   hashFiles_written disk' files = hashFiles_written disk files"
  by (induction files) simp_all

lemma copied_unreadable_as_empty: "copied (disk(f := None)) g = copied (disk(f \<mapsto> [])) g"
  by (simp add: copied_def)

lemma hashFiles_written_unreadable_as_empty:
  "hashFiles_written (disk(f := None)) files = hashFiles_written (disk(f \<mapsto> [])) files"
  by (rule hashFiles_written_cong) (rule copied_unreadable_as_empty)

lemma hashFiles_written_length_change:
  assumes "\<And>g. g \<noteq> f \<Longrightarrow> copied disk' g = copied disk g"
  shows "int (length (hashFiles_written disk' files)) =
         int (length (hashFiles_written disk files)) +
         int (count_list files f) * (int (length (copied disk' f)) - int (length (copied disk f)))"
  using assms by (induction files) (auto simp: algebra_simps)

lemma hashFiles_written_same_length_change:
  assumes other: "\<And>g. g \<noteq> f \<Longrightarrow> copied disk' g = copied disk g"
    and len: "length (copied disk' f) = length (copied disk f)"
    and diff: "copied disk' f \<noteq> copied disk f"
  shows "f \<in> set files \<Longrightarrow> hashFiles_written disk' files \<noteq> hashFiles_written disk files"
proof (induction files)
  case Nil
  then show ?case by simp
next
  case (Cons g gs)
  show ?case
  proof (cases "g = f")
    case True
    then show ?thesis using len diff by simp
  next
    case False
    then have "f \<in> set gs" using Cons.prems by simp
    then show ?thesis using Cons.IH other [OF False] by simp
  qed
qed

lemma hashFiles_written_one_file_changed:
  assumes other: "\<And>g. g \<noteq> f \<Longrightarrow> copied disk' g = copied disk g"
    and diff: "copied disk' f \<noteq> copied disk f"
    and mem: "f \<in> set files"
  shows "hashFiles_written disk' files \<noteq> hashFiles_written disk files"
proof (cases "length (copied disk' f) = length (copied disk f)")
  case True
  then show ?thesis using hashFiles_written_same_length_change [OF other True diff mem] by simp
next
  case False
  have "count_list files f \<noteq> 0" using mem by (simp add: count_list_0_iff)
  then have "int (count_list files f) * (int (length (copied disk' f)) - int (length (copied disk f))) \<noteq> 0"
    using False by simp
  then have "length (hashFiles_written disk' files) \<noteq> length (hashFiles_written disk files)"
    using hashFiles_written_length_change [of f disk' disk files] other by auto
  then show ?thesis by auto
qed

lemma hashFiles_written_insert:
  "g \<noteq> [] \<Longrightarrow> hashFiles_written disk (xs @ g # ys) \<noteq> hashFiles_written disk (xs @ ys)"
proof
  assume g: "g \<noteq> []" and eq: "hashFiles_written disk (xs @ g # ys) = hashFiles_written disk (xs @ ys)"
  have "length (hashFiles_written disk (xs @ g # ys)) = length (hashFiles_written disk (xs @ ys))"
    using eq by simp
  then show False using g by (simp add: hashFiles_written_append)
qed

lemma IsStale_after_Update:
  assumes "enabled m" and "time_Since now' now \<le> ttl m"
  shows "IsStale (Update m now disk name files) now' disk' name files' =
         (hashFiles disk' files' \<noteq> hashFiles disk files)"
  using assms by (simp add: IsStale_def Update_def)

lemma hashFiles_differ_or_collision:
  "hashFiles_written disk' files' \<noteq> hashFiles_written disk files \<Longrightarrow>
   hashFiles disk' files' \<noteq> hashFiles disk files \<or>
   digest_collision (hashFiles_written disk' files') (hashFiles_written disk files)"
  by (simp add: hashFiles_def digest_collision_def)

section \<open>The cache\<close>

text \<open>
  C1.  \<open>IsStale\<close> decides in this order, the first condition that holds settling the
  answer: caching disabled, stale; otherwise no entry under the component name, stale;
  otherwise more time than the TTL since the entry's \<open>LastGenerated\<close>, stale; otherwise
  the digest of the file list differs from the stored \<open>FilesHash\<close>, stale; otherwise
  not stale.
\<close>

theorem IsStale_decision_order:
  "(\<not> enabled m \<longrightarrow> IsStale m now disk name files) \<and>
   (enabled m \<and> Components (cache m) name = None \<longrightarrow> IsStale m now disk name files) \<and>
   (enabled m \<and> Components (cache m) name = Some cached \<and>
      time_Since now (LastGenerated cached) > ttl m \<longrightarrow> IsStale m now disk name files) \<and>
   (enabled m \<and> Components (cache m) name = Some cached \<and>
      \<not> time_Since now (LastGenerated cached) > ttl m \<and>
      hashFiles disk files \<noteq> FilesHash cached \<longrightarrow> IsStale m now disk name files) \<and>
   (enabled m \<and> Components (cache m) name = Some cached \<and>
      \<not> time_Since now (LastGenerated cached) > ttl m \<and>
      \<not> hashFiles disk files \<noteq> FilesHash cached \<longrightarrow> \<not> IsStale m now disk name files)"
  by (simp add: IsStale_def)

theorem IsStale_decision_order_witness:
  "IsStale (NewManager ''cache.yaml'' False 10) 0 Map.empty ''api'' [''a.go''] \<and>
   IsStale (NewManager ''cache.yaml'' True 10) 0 Map.empty ''api'' [''a.go''] \<and>
   IsStale (Update (NewManager ''cache.yaml'' True 10) 0 Map.empty ''api'' [''a.go''])
      11 Map.empty ''api'' [''a.go''] \<and>
   IsStale \<lparr>cachePath = ''cache.yaml'',
            cache = \<lparr>Version = ''1.0'', LastRun = 0,
                     Components = [''api'' \<mapsto> \<lparr>Hash = '''', FilesHash = ''old'',
                                               LastGenerated = 0, Files = [''a.go'']\<rparr>]\<rparr>,
            enabled = True, ttl = 10\<rparr>
      5 Map.empty ''api'' [''a.go''] \<and>
   \<not> IsStale (Update (NewManager ''cache.yaml'' True 10) 0 Map.empty ''api'' [''a.go''])
      5 Map.empty ''api'' [''a.go'']"
proof -
  let ?fresh = "\<lparr>Hash = hashComponent Map.empty ''api'' [''a.go''],
                 FilesHash = hashFiles Map.empty [''a.go''],
                 LastGenerated = 0, Files = [''a.go'']\<rparr>"
  let ?old = "\<lparr>Hash = '''', FilesHash = ''old'', LastGenerated = 0, Files = [''a.go'']\<rparr>"
  let ?m = "\<lparr>cachePath = ''cache.yaml'',
             cache = \<lparr>Version = ''1.0'', LastRun = 0, Components = [''api'' \<mapsto> ?old]\<rparr>,
             enabled = True, ttl = 10\<rparr>"
  have since: "time_Since 11 0 = 11" "time_Since 5 0 = 5"
    by (simp_all add: time_Since_def time_Sub_def maxDuration_def minDuration_def)
  have old: "hashFiles Map.empty [''a.go''] \<noteq> ''old''"
    using length_hashFiles [of Map.empty "[''a.go'']"] by auto
  have a: "IsStale (NewManager ''cache.yaml'' False 10) 0 Map.empty ''api'' [''a.go'']"
    using IsStale_decision_order [where m = "NewManager ''cache.yaml'' False 10"]
    by (simp add: NewManager_def)
  have b: "IsStale (NewManager ''cache.yaml'' True 10) 0 Map.empty ''api'' [''a.go'']"
    using IsStale_decision_order [where m = "NewManager ''cache.yaml'' True 10" and name = "''api''"]
    by (simp add: NewManager_def)
  have c: "IsStale (Update (NewManager ''cache.yaml'' True 10) 0 Map.empty ''api'' [''a.go''])
             11 Map.empty ''api'' [''a.go'']"
    using IsStale_decision_order
      [where m = "Update (NewManager ''cache.yaml'' True 10) 0 Map.empty ''api'' [''a.go'']"
         and name = "''api''" and cached = ?fresh and now = 11 and disk = Map.empty
         and files = "[''a.go'']"] since
    by (simp add: NewManager_def Update_def)
  have d: "IsStale ?m 5 Map.empty ''api'' [''a.go'']"
    using IsStale_decision_order [where m = ?m and name = "''api''" and cached = ?old
        and now = 5 and disk = Map.empty and files = "[''a.go'']"] since old
    by simp
  have e: "\<not> IsStale (Update (NewManager ''cache.yaml'' True 10) 0 Map.empty ''api'' [''a.go''])
             5 Map.empty ''api'' [''a.go'']"
    using IsStale_decision_order
      [where m = "Update (NewManager ''cache.yaml'' True 10) 0 Map.empty ''api'' [''a.go'']"
         and name = "''api''" and cached = ?fresh and now = 5 and disk = Map.empty
         and files = "[''a.go'']"] since
    by (simp add: NewManager_def Update_def)
  from a b c d e show ?thesis by blast
qed




text \<open>
  C10.  \<open>hashFiles\<close> has no failing branch: for every file list it returns the
  digest (64 hexadecimal characters) of the paths and contents in the order of the
  list, where a listed file that cannot be opened contributes its path and nothing
  else.  So the digest is the one the same list has when that file is present and
  empty, and \<open>IsStale\<close> answers the same in both states.
\<close>

theorem hashFiles_unreadable_as_empty:
  "hashFiles disk files =
     hex_EncodeToString (sha256_Sum (concat (map
        (\<lambda>file. file @ (case disk file of Some content \<Rightarrow> content | None \<Rightarrow> [])) files))) \<and>
   length (hashFiles disk files) = 64 \<and>
   hashFiles (disk(f := None)) (xs @ f # ys) =
     hex_EncodeToString (sha256_Sum
       (concat (map (\<lambda>file. file @ (case (disk(f := None)) file of
                                        Some content \<Rightarrow> content | None \<Rightarrow> [])) xs)
        @ f @
        concat (map (\<lambda>file. file @ (case (disk(f := None)) file of
                                        Some content \<Rightarrow> content | None \<Rightarrow> [])) ys))) \<and>
   hashFiles (disk(f := None)) files = hashFiles (disk(f \<mapsto> [])) files \<and>
   IsStale m now (disk(f := None)) name files = IsStale m now (disk(f \<mapsto> [])) name files"
proof -
  have written: "hashFiles_written d fs =
      concat (map (\<lambda>file. file @ (case d file of Some content \<Rightarrow> content | None \<Rightarrow> [])) fs)"
    for d fs
    by (induction fs) (simp_all add: copied_def)
  have all: "hashFiles disk files =
     hex_EncodeToString (sha256_Sum (concat (map
        (\<lambda>file. file @ (case disk file of Some content \<Rightarrow> content | None \<Rightarrow> [])) files)))"
    by (simp only: hashFiles_def written)
  have one: "hashFiles (disk(f := None)) (xs @ f # ys) =
     hex_EncodeToString (sha256_Sum
       (concat (map (\<lambda>file. file @ (case (disk(f := None)) file of
                                        Some content \<Rightarrow> content | None \<Rightarrow> [])) xs)
        @ f @
        concat (map (\<lambda>file. file @ (case (disk(f := None)) file of
                                        Some content \<Rightarrow> content | None \<Rightarrow> [])) ys)))"
    by (simp add: hashFiles_def written)
  have eq: "hashFiles (disk(f := None)) files = hashFiles (disk(f \<mapsto> [])) files"
    by (simp add: hashFiles_def hashFiles_written_unreadable_as_empty)
  have "IsStale m now (disk(f := None)) name files
      = IsStale m now (disk(f \<mapsto> [])) name files"
    by (simp only: IsStale_def eq)
  with all one eq length_hashFiles show ?thesis by blast
qed

theorem hashFiles_unreadable_as_empty_witness:
  "hashFiles [''b.go'' \<mapsto> ''x''] [''a.go'', ''b.go'']
     = hex_EncodeToString (sha256_Sum ''a.gob.gox'') \<and>
   hashFiles [''b.go'' \<mapsto> ''x''] [''a.go'', ''b.go'']
     = hashFiles [''a.go'' \<mapsto> '''', ''b.go'' \<mapsto> ''x''] [''a.go'', ''b.go'']"
proof -
  have a: "hashFiles [''b.go'' \<mapsto> ''x''] [''a.go'', ''b.go'']
     = hex_EncodeToString (sha256_Sum ''a.gob.gox'')"
    using hashFiles_unreadable_as_empty
      [where disk = "[''b.go'' \<mapsto> ''x'']" and files = "[''a.go'', ''b.go'']"]
    by simp
  have b: "hashFiles [''a.go'' \<mapsto> '''', ''b.go'' \<mapsto> ''x''] [''a.go'', ''b.go'']
     = hex_EncodeToString (sha256_Sum ''a.gob.gox'')"
    using hashFiles_unreadable_as_empty
      [where disk = "[''a.go'' \<mapsto> '''', ''b.go'' \<mapsto> ''x'']" and files = "[''a.go'', ''b.go'']"]
    by simp
  from a b show ?thesis by simp
qed

text \<open>
  C2, as the claim states it, fails twice.  With caching disabled \<open>Update\<close> stores
  nothing and \<open>IsStale\<close> answers true right after it.  With caching enabled, bytes
  that move across the boundary between two listed files leave the hashed byte
  sequence as it was: with the list \<open>a, b\<close>, an empty \<open>a\<close> and \<open>b\<close> holding the
  byte \<open>b\<close> hash as \<open>a\<close> holding \<open>b\<close> and an empty \<open>b\<close>, so \<open>IsStale\<close> answers
  false although both files changed.
\<close>

theorem IsStale_after_Update_counterexample:
  "IsStale (Update (NewManager ''cache.yaml'' False 100) 0 [''a.go'' \<mapsto> ''package a'']
              ''api'' [''a.go''])
     1 [''a.go'' \<mapsto> ''package a''] ''api'' [''a.go'']
   \<and>
   \<not> IsStale (Update (NewManager ''cache.yaml'' True 100) 0 [''a'' \<mapsto> '''', ''b'' \<mapsto> ''b'']
                ''api'' [''a'', ''b''])
       1 [''a'' \<mapsto> ''b'', ''b'' \<mapsto> ''''] ''api'' [''a'', ''b'']"
proof -
  have "hashFiles [''a'' \<mapsto> ''b'', ''b'' \<mapsto> ''''] [''a'', ''b'']
      = hashFiles [''a'' \<mapsto> '''', ''b'' \<mapsto> ''b''] [''a'', ''b'']"
    by (simp add: hashFiles_def copied_def)
  moreover have "time_Since 1 0 = 1"
    by (simp add: time_Since_def time_Sub_def maxDuration_def minDuration_def)
  ultimately show ?thesis
    by (simp add: IsStale_def Update_def NewManager_def)
qed

text \<open>
  C2, amended.  With caching enabled and no more time than the TTL elapsed since
  \<open>Update\<close>: \<open>IsStale\<close> with the same file list and the same contents answers false;
  in general it answers true exactly when the digest of the byte sequence
  path, content, path, content, ... differs from the one \<open>Update\<close> stored.  That
  sequence differs, so \<open>IsStale\<close> answers true unless SHA-256 collides, when the content
  of exactly one listed file changes and nothing else does, and when, with nothing on
  disk changed, a non-empty path is added to or removed from the list.
\<close>

theorem IsStale_after_Update_enabled:
  "enabled m \<and> time_Since now' now \<le> ttl m \<longrightarrow>
   ((\<forall>f \<in> set files. disk' f = disk f) \<longrightarrow>
       \<not> IsStale (Update m now disk name files) now' disk' name files) \<and>
   IsStale (Update m now disk name files) now' disk' name files' =
       (hashFiles disk' files' \<noteq> hashFiles disk files) \<and>
   (f \<in> set files \<and> copied disk' f \<noteq> copied disk f \<and> (\<forall>g. g \<noteq> f \<longrightarrow> disk' g = disk g) \<longrightarrow>
       IsStale (Update m now disk name files) now' disk' name files \<or>
       digest_collision (hashFiles_written disk' files) (hashFiles_written disk files)) \<and>
   (g \<noteq> [] \<longrightarrow>
       IsStale (Update m now disk name (xs @ ys)) now' disk name (xs @ g # ys) \<or>
       digest_collision (hashFiles_written disk (xs @ g # ys)) (hashFiles_written disk (xs @ ys))) \<and>
   (g \<noteq> [] \<longrightarrow>
       IsStale (Update m now disk name (xs @ g # ys)) now' disk name (xs @ ys) \<or>
       digest_collision (hashFiles_written disk (xs @ ys)) (hashFiles_written disk (xs @ g # ys)))"
proof (intro impI)
  assume h: "enabled m \<and> time_Since now' now \<le> ttl m"
  then have en: "enabled m" and t: "time_Since now' now \<le> ttl m" by simp_all
  note stale = IsStale_after_Update [OF en t]
  have same: "(\<forall>f \<in> set files. disk' f = disk f) \<longrightarrow>
       \<not> IsStale (Update m now disk name files) now' disk' name files"
  proof
    assume eq: "\<forall>f \<in> set files. disk' f = disk f"
    have "hashFiles_written disk' files = hashFiles_written disk files"
      by (rule hashFiles_written_cong) (simp add: copied_def eq)
    then show "\<not> IsStale (Update m now disk name files) now' disk' name files"
      by (simp add: stale hashFiles_def)
  qed
  have one: "f \<in> set files \<and> copied disk' f \<noteq> copied disk f \<and> (\<forall>g. g \<noteq> f \<longrightarrow> disk' g = disk g) \<longrightarrow>
       IsStale (Update m now disk name files) now' disk' name files \<or>
       digest_collision (hashFiles_written disk' files) (hashFiles_written disk files)"
  proof
    assume a: "f \<in> set files \<and> copied disk' f \<noteq> copied disk f \<and> (\<forall>g. g \<noteq> f \<longrightarrow> disk' g = disk g)"
    have "hashFiles_written disk' files \<noteq> hashFiles_written disk files"
      by (rule hashFiles_written_one_file_changed [of f]) (use a in \<open>simp_all add: copied_def\<close>)
    then show "IsStale (Update m now disk name files) now' disk' name files \<or>
       digest_collision (hashFiles_written disk' files) (hashFiles_written disk files)"
      using hashFiles_differ_or_collision by (simp add: stale)
  qed
  have added: "g \<noteq> [] \<longrightarrow>
       IsStale (Update m now disk name (xs @ ys)) now' disk name (xs @ g # ys) \<or>
       digest_collision (hashFiles_written disk (xs @ g # ys)) (hashFiles_written disk (xs @ ys))"
    using hashFiles_differ_or_collision [OF hashFiles_written_insert, of g disk xs ys]
    by (simp add: stale)
  have removed: "g \<noteq> [] \<longrightarrow>
       IsStale (Update m now disk name (xs @ g # ys)) now' disk name (xs @ ys) \<or>
       digest_collision (hashFiles_written disk (xs @ ys)) (hashFiles_written disk (xs @ g # ys))"
    using hashFiles_differ_or_collision [OF hashFiles_written_insert [symmetric], of g disk xs ys]
    by (simp add: stale)
  from same stale one added removed
  show "((\<forall>f \<in> set files. disk' f = disk f) \<longrightarrow>
       \<not> IsStale (Update m now disk name files) now' disk' name files) \<and>
   IsStale (Update m now disk name files) now' disk' name files' =
       (hashFiles disk' files' \<noteq> hashFiles disk files) \<and>
   (f \<in> set files \<and> copied disk' f \<noteq> copied disk f \<and> (\<forall>g. g \<noteq> f \<longrightarrow> disk' g = disk g) \<longrightarrow>
       IsStale (Update m now disk name files) now' disk' name files \<or>
       digest_collision (hashFiles_written disk' files) (hashFiles_written disk files)) \<and>
   (g \<noteq> [] \<longrightarrow>
       IsStale (Update m now disk name (xs @ ys)) now' disk name (xs @ g # ys) \<or>
       digest_collision (hashFiles_written disk (xs @ g # ys)) (hashFiles_written disk (xs @ ys))) \<and>
   (g \<noteq> [] \<longrightarrow>
       IsStale (Update m now disk name (xs @ g # ys)) now' disk name (xs @ ys) \<or>
       digest_collision (hashFiles_written disk (xs @ ys)) (hashFiles_written disk (xs @ g # ys)))"
    by blast
qed

theorem IsStale_after_Update_enabled_witness:
  "\<not> IsStale (Update (NewManager ''cache.yaml'' True 100) 0 [''a.go'' \<mapsto> ''package a'']
                ''api'' [''a.go''])
       50 [''a.go'' \<mapsto> ''package a''] ''api'' [''a.go'']
   \<and>
   (IsStale (Update (NewManager ''cache.yaml'' True 100) 0 [''a.go'' \<mapsto> ''package a'']
                ''api'' [''a.go''])
       50 [''a.go'' \<mapsto> ''package b''] ''api'' [''a.go'']
    \<or> digest_collision ''a.gopackage b'' ''a.gopackage a'')"
proof -
  let ?m = "NewManager ''cache.yaml'' True 100"
  let ?d = "[''a.go'' \<mapsto> ''package a'']"
  let ?d' = "[''a.go'' \<mapsto> ''package b'']"
  have pre: "enabled ?m \<and> time_Since 50 0 \<le> ttl ?m"
    by (simp add: NewManager_def time_Since_def time_Sub_def maxDuration_def minDuration_def)
  have changed: "''a.go'' \<in> set [''a.go''] \<and> copied ?d' ''a.go'' \<noteq> copied ?d ''a.go'' \<and>
      (\<forall>g. g \<noteq> ''a.go'' \<longrightarrow> ?d' g = ?d g)"
    by (simp add: copied_def)
  have a: "\<not> IsStale (Update ?m 0 ?d ''api'' [''a.go'']) 50 ?d ''api'' [''a.go'']"
    using IsStale_after_Update_enabled [where m = ?m and now = 0 and now' = 50 and disk = ?d
        and disk' = ?d and files = "[''a.go'']" and name = "''api''"] pre
    by blast
  have b: "IsStale (Update ?m 0 ?d ''api'' [''a.go'']) 50 ?d' ''api'' [''a.go''] \<or>
       digest_collision (hashFiles_written ?d' [''a.go'']) (hashFiles_written ?d [''a.go''])"
    using IsStale_after_Update_enabled [where m = ?m and now = 0 and now' = 50 and disk = ?d
        and disk' = ?d' and files = "[''a.go'']" and name = "''api''" and f = "''a.go''"]
      pre changed
    by blast
  have "hashFiles_written ?d' [''a.go''] = ''a.gopackage b''"
       "hashFiles_written ?d [''a.go''] = ''a.gopackage a''"
    by (simp_all add: copied_def)
  with a b show ?thesis by simp
qed

section \<open>The metadata extractor\<close>

lemma foldl_csprojFile_unreadable:
  "(\<forall>file \<in> set files. \<not> snd file \<and> HasSuffix (fst file) ''.csproj'' \<longrightarrow>
      ReadFile os (Join [path, fst file]) = None) \<Longrightarrow>
   foldl (csprojFile os path) deps files = deps"
  by (induction files arbitrary: deps) (auto simp: csprojFile_def split: prod.splits)

lemma length_pomDependencies:
  "length (pomDependencies text) =
     min (length (FindAll (tagAt ''groupId'') 0 text))
         (length (FindAll (tagAt ''artifactId'') 0 text))"
  by (simp add: pomDependencies_def Let_def)

lemma nth_pomDependencies:
  "i < length (pomDependencies text) \<Longrightarrow>
   pomDependencies text ! i =
     external (FindAll (tagAt ''groupId'') 0 text ! i @ '':'' @
               FindAll (tagAt ''artifactId'') 0 text ! i)
              (if i < length (FindAll (tagAt ''version'') 0 text)
               then FindAll (tagAt ''version'') 0 text ! i else [])"
  by (simp add: pomDependencies_def Let_def)

text \<open>
  C8.  For a readable \<open>pom.xml\<close> the dependencies are paired by position: there are as
  many as the smaller of the numbers of \<open>groupId\<close> and \<open>artifactId\<close> matches; the
  \<open>i\<close>-th has the name made of the \<open>i\<close>-th \<open>groupId\<close> match, a colon and the
  \<open>i\<close>-th \<open>artifactId\<close> match, and the \<open>i\<close>-th \<open>version\<close> match as its version
  when there is one, the empty version otherwise.
\<close>

theorem extractJavaDependencies_pom_positional:
  assumes "ReadFile os (manifestPath path ''pom.xml'') = Some text"
  shows "length (extractJavaDependencies os path) =
           min (length (FindAll (tagAt ''groupId'') 0 text))
               (length (FindAll (tagAt ''artifactId'') 0 text)) \<and>
         (\<forall>i < length (extractJavaDependencies os path).
            dep_Name (extractJavaDependencies os path ! i) =
              FindAll (tagAt ''groupId'') 0 text ! i @ '':'' @
              FindAll (tagAt ''artifactId'') 0 text ! i \<and>
            dep_Version (extractJavaDependencies os path ! i) =
              (if i < length (FindAll (tagAt ''version'') 0 text)
               then FindAll (tagAt ''version'') 0 text ! i else []))"
proof -
  have eq: "extractJavaDependencies os path = pomDependencies text"
    using assms by (simp add: extractJavaDependencies_def)
  show ?thesis
    unfolding eq
    by (simp add: length_pomDependencies nth_pomDependencies external_def)
qed

theorem extractJavaDependencies_pom_positional_witness:
  "length (extractJavaDependencies
      \<lparr>ReadFile = [''pom.xml'' \<mapsto> ''<groupId>g1</groupId><artifactId>a1</artifactId><version>1</version><groupId>g2</groupId><artifactId>a2</artifactId><groupId>g3</groupId>''],
       ReadDir = (\<lambda>p. None), Stat = (\<lambda>p. None), Glob = (\<lambda>p. []), Tree = (\<lambda>p. NoLstat)\<rparr> ''.'') = 2 \<and>
   dep_Name (extractJavaDependencies
      \<lparr>ReadFile = [''pom.xml'' \<mapsto> ''<groupId>g1</groupId><artifactId>a1</artifactId><version>1</version><groupId>g2</groupId><artifactId>a2</artifactId><groupId>g3</groupId>''],
       ReadDir = (\<lambda>p. None), Stat = (\<lambda>p. None), Glob = (\<lambda>p. []), Tree = (\<lambda>p. NoLstat)\<rparr> ''.'' ! 0) = ''g1:a1'' \<and>
   dep_Version (extractJavaDependencies
      \<lparr>ReadFile = [''pom.xml'' \<mapsto> ''<groupId>g1</groupId><artifactId>a1</artifactId><version>1</version><groupId>g2</groupId><artifactId>a2</artifactId><groupId>g3</groupId>''],
       ReadDir = (\<lambda>p. None), Stat = (\<lambda>p. None), Glob = (\<lambda>p. []), Tree = (\<lambda>p. NoLstat)\<rparr> ''.'' ! 0) = ''1'' \<and>
   dep_Name (extractJavaDependencies
      \<lparr>ReadFile = [''pom.xml'' \<mapsto> ''<groupId>g1</groupId><artifactId>a1</artifactId><version>1</version><groupId>g2</groupId><artifactId>a2</artifactId><groupId>g3</groupId>''],
       ReadDir = (\<lambda>p. None), Stat = (\<lambda>p. None), Glob = (\<lambda>p. []), Tree = (\<lambda>p. NoLstat)\<rparr> ''.'' ! 1) = ''g2:a2'' \<and>
   dep_Version (extractJavaDependencies
      \<lparr>ReadFile = [''pom.xml'' \<mapsto> ''<groupId>g1</groupId><artifactId>a1</artifactId><version>1</version><groupId>g2</groupId><artifactId>a2</artifactId><groupId>g3</groupId>''],
       ReadDir = (\<lambda>p. None), Stat = (\<lambda>p. None), Glob = (\<lambda>p. []), Tree = (\<lambda>p. NoLstat)\<rparr> ''.'' ! 1) = ''''"
proof -
  let ?text = "''<groupId>g1</groupId><artifactId>a1</artifactId><version>1</version><groupId>g2</groupId><artifactId>a2</artifactId><groupId>g3</groupId>''"
  let ?os = "\<lparr>ReadFile = [''pom.xml'' \<mapsto> ?text],
              ReadDir = (\<lambda>p. None), Stat = (\<lambda>p. None), Glob = (\<lambda>p. []), Tree = (\<lambda>p. NoLstat)\<rparr>"
  let ?deps = "extractJavaDependencies ?os ''.''"
  have rd: "ReadFile ?os (manifestPath ''.'' ''pom.xml'') = Some ?text"
    by (simp add: manifestPath_def)
  have g: "FindAll (tagAt ''groupId'') 0 ?text = [''g1'', ''g2'', ''g3'']"
    by code_simp
  have a: "FindAll (tagAt ''artifactId'') 0 ?text = [''a1'', ''a2'']"
    by code_simp
  have v: "FindAll (tagAt ''version'') 0 ?text = [''1'']"
    by code_simp
  note th = extractJavaDependencies_pom_positional [OF rd, unfolded g a v]
  from th have len: "length ?deps = 2" by simp
  from th len have n0: "dep_Name (?deps ! 0) = ''g1:a1''" and v0: "dep_Version (?deps ! 0) = ''1''"
    by simp_all
  from th len have n1: "dep_Name (?deps ! 1) = ''g2:a2''" and v1: "dep_Version (?deps ! 1) = ''''"
    by simp_all
  show ?thesis using len n0 v0 n1 v1 by simp
qed

text \<open>
  C4, as the claim states it, fails for the manifests that are scanned and not parsed:
  a \<open>pom.xml\<close> that is not well-formed XML (an end tag without its start tag, no
  single root element) still yields the dependency its \<open>groupId\<close> and
  \<open>artifactId\<close> tags spell.
\<close>

theorem ExtractDependencies_malformed_pom:
  "ExtractDependencies (\<lambda>content. None)
     \<lparr>ReadFile = [''pom.xml'' \<mapsto> ''<groupId>g</groupId><artifactId>a</artifactId></project>''],
      ReadDir = (\<lambda>p. None), Stat = (\<lambda>p. None), Glob = (\<lambda>p. []), Tree = (\<lambda>p. NoLstat)\<rparr>
     \<lparr>comp_Name = ''app'', comp_Type = ''service'', comp_Language = ''java'',
      comp_Path = ''.'', comp_Files = [], comp_Description = '''', comp_HasTests = False,
      comp_Dependencies = [], comp_Endpoints = [], comp_EntryPoint = ''''\<rparr>
   = [\<lparr>dep_Name = ''g:a'', dep_Version = '''', dep_Type = ''external''\<rparr>]"
proof -
  have g: "FindAll (tagAt ''groupId'') 0 ''<groupId>g</groupId><artifactId>a</artifactId></project>'' = [''g'']"
    by code_simp
  have a: "FindAll (tagAt ''artifactId'') 0 ''<groupId>g</groupId><artifactId>a</artifactId></project>'' = [''a'']"
    by code_simp
  have v: "FindAll (tagAt ''version'') 0 ''<groupId>g</groupId><artifactId>a</artifactId></project>'' = []"
    by code_simp
  have pom: "pomDependencies ''<groupId>g</groupId><artifactId>a</artifactId></project>''
      = [external ''g:a'' []]"
    unfolding pomDependencies_def g a v by simp
  show ?thesis
    by (simp add: ExtractDependencies_def extractJavaDependencies_def manifestPath_def
        pom external_def)
qed

text \<open>
  C4, amended.  Dependency extraction returns a list and has no error to return.  The
  list is empty when the manifest the component's language is read from cannot be
  read: \<open>go.mod\<close> for Go; both \<open>requirements.txt\<close> and \<open>pyproject.toml\<close> for
  Python; \<open>package.json\<close> for JavaScript and TypeScript; \<open>Cargo.toml\<close> for Rust;
  both \<open>pom.xml\<close> and \<open>build.gradle\<close> for Java; \<open>Gemfile\<close> for Ruby; for C#,
  when the directory cannot be listed or no \<open>.csproj\<close> file it lists can be read.
  It is empty for every other language, and when \<open>package.json\<close> is read but
  \<open>json.Unmarshal\<close> fails on it.  Whatever else can be read in the directory plays no
  part.
\<close>

theorem ExtractDependencies_missing_or_undecodable:
  "(comp_Language c = ''go'' \<and>
      ReadFile os (manifestPath (comp_Path c) ''go.mod'') = None
      \<longrightarrow> ExtractDependencies unmarshal os c = []) \<and>
   (comp_Language c = ''python'' \<and>
      ReadFile os (manifestPath (comp_Path c) ''requirements.txt'') = None \<and>
      ReadFile os (manifestPath (comp_Path c) ''pyproject.toml'') = None
      \<longrightarrow> ExtractDependencies unmarshal os c = []) \<and>
   ((comp_Language c = ''javascript'' \<or> comp_Language c = ''typescript'') \<and>
      ReadFile os (manifestPath (comp_Path c) ''package.json'') = None
      \<longrightarrow> ExtractDependencies unmarshal os c = []) \<and>
   (comp_Language c = ''rust'' \<and>
      ReadFile os (manifestPath (comp_Path c) ''Cargo.toml'') = None
      \<longrightarrow> ExtractDependencies unmarshal os c = []) \<and>
   (comp_Language c = ''java'' \<and>
      ReadFile os (manifestPath (comp_Path c) ''pom.xml'') = None \<and>
      ReadFile os (manifestPath (comp_Path c) ''build.gradle'') = None
      \<longrightarrow> ExtractDependencies unmarshal os c = []) \<and>
   (comp_Language c = ''ruby'' \<and>
      ReadFile os (manifestPath (comp_Path c) ''Gemfile'') = None
      \<longrightarrow> ExtractDependencies unmarshal os c = []) \<and>
   (comp_Language c = ''csharp'' \<and>
      (ReadDir os (comp_Path c) = None \<or>
       (\<exists>files. ReadDir os (comp_Path c) = Some files \<and>
          (\<forall>file \<in> set files. \<not> snd file \<and> HasSuffix (fst file) ''.csproj'' \<longrightarrow>
             ReadFile os (Join [comp_Path c, fst file]) = None)))
      \<longrightarrow> ExtractDependencies unmarshal os c = []) \<and>
   (comp_Language c \<notin> set [''go'', ''python'', ''javascript'', ''typescript'', ''rust'',
                             ''java'', ''ruby'', ''csharp'']
      \<longrightarrow> ExtractDependencies unmarshal os c = []) \<and>
   ((comp_Language c = ''javascript'' \<or> comp_Language c = ''typescript'') \<and>
      ReadFile os (manifestPath (comp_Path c) ''package.json'') = Some content \<and>
      unmarshal content = None
      \<longrightarrow> ExtractDependencies unmarshal os c = [])"
proof -
  have go: "comp_Language c = ''go'' \<and>
      ReadFile os (manifestPath (comp_Path c) ''go.mod'') = None
      \<longrightarrow> ExtractDependencies unmarshal os c = []"
    by (simp add: ExtractDependencies_def Let_def extractGoDependencies_def)
  have python: "comp_Language c = ''python'' \<and>
      ReadFile os (manifestPath (comp_Path c) ''requirements.txt'') = None \<and>
      ReadFile os (manifestPath (comp_Path c) ''pyproject.toml'') = None
      \<longrightarrow> ExtractDependencies unmarshal os c = []"
    by (simp add: ExtractDependencies_def Let_def extractPythonDependencies_def)
  have node: "(comp_Language c = ''javascript'' \<or> comp_Language c = ''typescript'') \<and>
      ReadFile os (manifestPath (comp_Path c) ''package.json'') = None
      \<longrightarrow> ExtractDependencies unmarshal os c = []"
    by (auto simp: ExtractDependencies_def Let_def extractNodeDependencies_def)
  have rust: "comp_Language c = ''rust'' \<and>
      ReadFile os (manifestPath (comp_Path c) ''Cargo.toml'') = None
      \<longrightarrow> ExtractDependencies unmarshal os c = []"
    by (simp add: ExtractDependencies_def Let_def extractRustDependencies_def)
  have java: "comp_Language c = ''java'' \<and>
      ReadFile os (manifestPath (comp_Path c) ''pom.xml'') = None \<and>
      ReadFile os (manifestPath (comp_Path c) ''build.gradle'') = None
      \<longrightarrow> ExtractDependencies unmarshal os c = []"
    by (simp add: ExtractDependencies_def Let_def extractJavaDependencies_def)
  have ruby: "comp_Language c = ''ruby'' \<and>
      ReadFile os (manifestPath (comp_Path c) ''Gemfile'') = None
      \<longrightarrow> ExtractDependencies unmarshal os c = []"
    by (simp add: ExtractDependencies_def Let_def extractRubyDependencies_def)
  have csharp: "comp_Language c = ''csharp'' \<and>
      (ReadDir os (comp_Path c) = None \<or>
       (\<exists>files. ReadDir os (comp_Path c) = Some files \<and>
          (\<forall>file \<in> set files. \<not> snd file \<and> HasSuffix (fst file) ''.csproj'' \<longrightarrow>
             ReadFile os (Join [comp_Path c, fst file]) = None)))
      \<longrightarrow> ExtractDependencies unmarshal os c = []"
  proof
    assume h: "comp_Language c = ''csharp'' \<and>
      (ReadDir os (comp_Path c) = None \<or>
       (\<exists>files. ReadDir os (comp_Path c) = Some files \<and>
          (\<forall>file \<in> set files. \<not> snd file \<and> HasSuffix (fst file) ''.csproj'' \<longrightarrow>
             ReadFile os (Join [comp_Path c, fst file]) = None)))"
    then have "extractCSharpDependencies os (comp_Path c) = []"
      by (auto simp: extractCSharpDependencies_def foldl_csprojFile_unreadable)
    then show "ExtractDependencies unmarshal os c = []"
      using h by (simp add: ExtractDependencies_def Let_def)
  qed
  have other: "comp_Language c \<notin> set [''go'', ''python'', ''javascript'', ''typescript'',
                             ''rust'', ''java'', ''ruby'', ''csharp'']
      \<longrightarrow> ExtractDependencies unmarshal os c = []"
    by (simp add: ExtractDependencies_def Let_def)
  have json: "(comp_Language c = ''javascript'' \<or> comp_Language c = ''typescript'') \<and>
      ReadFile os (manifestPath (comp_Path c) ''package.json'') = Some content \<and>
      unmarshal content = None
      \<longrightarrow> ExtractDependencies unmarshal os c = []"
    by (auto simp: ExtractDependencies_def Let_def extractNodeDependencies_def)
  from go python node rust java ruby csharp other json show ?thesis by blast
qed

theorem ExtractDependencies_missing_or_undecodable_witness:
  "ExtractDependencies (\<lambda>content. None)
     \<lparr>ReadFile = [''services/a/main.go'' \<mapsto> ''package main''],
      ReadDir = (\<lambda>p. Some [(''main.go'', False)]), Stat = (\<lambda>p. None), Glob = (\<lambda>p. []),
      Tree = (\<lambda>p. NoLstat)\<rparr>
     \<lparr>comp_Name = ''a'', comp_Type = ''service'', comp_Language = ''go'',
      comp_Path = ''services/a'', comp_Files = [], comp_Description = '''', comp_HasTests = False,
      comp_Dependencies = [], comp_Endpoints = [], comp_EntryPoint = ''''\<rparr> = [] \<and>
   ExtractDependencies (\<lambda>content. None)
     \<lparr>ReadFile = [''services/b/Program.cs'' \<mapsto> ''class Program {}''],
      ReadDir = (\<lambda>p. Some [(''Program.cs'', False), (''obj'', True)]), Stat = (\<lambda>p. None),
      Glob = (\<lambda>p. []), Tree = (\<lambda>p. NoLstat)\<rparr>
     \<lparr>comp_Name = ''b'', comp_Type = ''service'', comp_Language = ''csharp'',
      comp_Path = ''services/b'', comp_Files = [], comp_Description = '''', comp_HasTests = False,
      comp_Dependencies = [], comp_Endpoints = [], comp_EntryPoint = ''''\<rparr> = [] \<and>
   ExtractDependencies (\<lambda>content. None)
     \<lparr>ReadFile = [''package.json'' \<mapsto> ''{ dependencies: oops'', ''index.js'' \<mapsto> ''x''],
      ReadDir = (\<lambda>p. None), Stat = (\<lambda>p. None), Glob = (\<lambda>p. []),
      Tree = (\<lambda>p. NoLstat)\<rparr>
     \<lparr>comp_Name = ''web'', comp_Type = ''frontend'', comp_Language = ''javascript'',
      comp_Path = ''.'', comp_Files = [], comp_Description = '''', comp_HasTests = False,
      comp_Dependencies = [], comp_Endpoints = [], comp_EntryPoint = ''''\<rparr> = []"
proof -
  let ?goos = "\<lparr>ReadFile = [''services/a/main.go'' \<mapsto> ''package main''],
      ReadDir = (\<lambda>p. Some [(''main.go'', False)]), Stat = (\<lambda>p. None), Glob = (\<lambda>p. []),
      Tree = (\<lambda>p. NoLstat)\<rparr>"
  let ?csos = "\<lparr>ReadFile = [''services/b/Program.cs'' \<mapsto> ''class Program {}''],
      ReadDir = (\<lambda>p. Some [(''Program.cs'', False), (''obj'', True)]), Stat = (\<lambda>p. None),
      Glob = (\<lambda>p. []), Tree = (\<lambda>p. NoLstat)\<rparr>"
  let ?bad = "\<lparr>ReadFile = [''package.json'' \<mapsto> ''{ dependencies: oops'', ''index.js'' \<mapsto> ''x''],
      ReadDir = (\<lambda>p. None), Stat = (\<lambda>p. None), Glob = (\<lambda>p. []),
      Tree = (\<lambda>p. NoLstat)\<rparr>"
  let ?go = "\<lparr>comp_Name = ''a'', comp_Type = ''service'', comp_Language = ''go'',
      comp_Path = ''services/a'', comp_Files = [], comp_Description = '''', comp_HasTests = False,
      comp_Dependencies = [], comp_Endpoints = [], comp_EntryPoint = ''''\<rparr>"
  let ?cs = "\<lparr>comp_Name = ''b'', comp_Type = ''service'', comp_Language = ''csharp'',
      comp_Path = ''services/b'', comp_Files = [], comp_Description = '''', comp_HasTests = False,
      comp_Dependencies = [], comp_Endpoints = [], comp_EntryPoint = ''''\<rparr>"
  let ?js = "\<lparr>comp_Name = ''web'', comp_Type = ''frontend'', comp_Language = ''javascript'',
      comp_Path = ''.'', comp_Files = [], comp_Description = '''', comp_HasTests = False,
      comp_Dependencies = [], comp_Endpoints = [], comp_EntryPoint = ''''\<rparr>"
  have gomod: "manifestPath ''services/a'' ''go.mod'' = ''services/a/go.mod''" by code_simp
  have suffix: "\<not> HasSuffix ''Program.cs'' ''.csproj''" by code_simp
  have a: "ExtractDependencies (\<lambda>content. None) ?goos ?go = []"
    using ExtractDependencies_missing_or_undecodable
      [where c = ?go and os = ?goos and unmarshal = "\<lambda>content. None"]
    by (simp add: gomod)
  have b: "ExtractDependencies (\<lambda>content. None) ?csos ?cs = []"
    using ExtractDependencies_missing_or_undecodable
      [where c = ?cs and os = ?csos and unmarshal = "\<lambda>content. None"]
    by (simp add: suffix)
  have c: "ExtractDependencies (\<lambda>content. None) ?bad ?js = []"
    using ExtractDependencies_missing_or_undecodable
      [where c = ?js and os = ?bad and unmarshal = "\<lambda>content. None"
         and content = "''{ dependencies: oops''"]
    by (simp add: manifestPath_def)
  from a b c show ?thesis by blast
qed

section \<open>The component detector\<close>

lemma detectMonorepo_nonempty:
  assumes "pattern \<in> set [''services/*'', ''apps/*'', ''packages/*'', ''libs/*'']"
    and "dir \<in> set (Glob os (Join [rootPath d, pattern]))"
    and "Stat os dir = Some True"
  shows "detectMonorepo os d \<noteq> []"
proof -
  have "analyzeDirectory os dir \<in> set (detectMonorepo os d)"
    unfolding detectMonorepo_def using assms by auto
  then show ?thesis by auto
qed

text \<open>
  C3.  \<open>DetectComponents\<close> takes the components of the first strategy that yields one,
  in the order monorepo, single component, entry points, and enriches them: the
  single-component result counts only when the monorepo strategy yields nothing, the
  entry-point result only when both yield nothing.  A directory matched by a monorepo
  pattern makes the monorepo strategy yield a component, so the result is the monorepo
  one whatever manifest lies at the root.
\<close>

theorem DetectComponents_strategy_order:
  "(detectMonorepo os d \<noteq> [] \<longrightarrow>
      DetectComponents os d = map (enrichComponent os d) (detectMonorepo os d)) \<and>
   (detectMonorepo os d = [] \<and> detectSingleComponent os d = Some c \<longrightarrow>
      DetectComponents os d = [enrichComponent os d c]) \<and>
   (detectMonorepo os d = [] \<and> detectSingleComponent os d = None \<longrightarrow>
      DetectComponents os d = map (enrichComponent os d) (detectByDirectory os d)) \<and>
   (pattern \<in> set [''services/*'', ''apps/*'', ''packages/*'', ''libs/*''] \<and>
    dir \<in> set (Glob os (Join [rootPath d, pattern])) \<and> Stat os dir = Some True \<longrightarrow>
      detectMonorepo os d \<noteq> [] \<and>
      DetectComponents os d = map (enrichComponent os d) (detectMonorepo os d))"
proof -
  have mono: "detectMonorepo os d \<noteq> [] \<longrightarrow>
      DetectComponents os d = map (enrichComponent os d) (detectMonorepo os d)"
    by (simp add: DetectComponents_def Let_def)
  have single: "detectMonorepo os d = [] \<and> detectSingleComponent os d = Some c \<longrightarrow>
      DetectComponents os d = [enrichComponent os d c]"
    by (simp add: DetectComponents_def Let_def)
  have entry: "detectMonorepo os d = [] \<and> detectSingleComponent os d = None \<longrightarrow>
      DetectComponents os d = map (enrichComponent os d) (detectByDirectory os d)"
    by (simp add: DetectComponents_def Let_def)
  have both: "pattern \<in> set [''services/*'', ''apps/*'', ''packages/*'', ''libs/*''] \<and>
    dir \<in> set (Glob os (Join [rootPath d, pattern])) \<and> Stat os dir = Some True \<longrightarrow>
      detectMonorepo os d \<noteq> [] \<and>
      DetectComponents os d = map (enrichComponent os d) (detectMonorepo os d)"
    using detectMonorepo_nonempty [of pattern dir os d] mono by blast
  from mono single entry both show ?thesis by blast
qed

theorem DetectComponents_strategy_order_witness:
  "(fileExists
      \<lparr>ReadFile = (\<lambda>p. None), ReadDir = (\<lambda>p. None),
       Stat = [''services/a'' \<mapsto> True, ''go.mod'' \<mapsto> False],
       Glob = (\<lambda>p. if p = ''services/*'' then [''services/a''] else []),
       Tree = (\<lambda>p. Directory [])\<rparr> \<lparr>rootPath = ''.''\<rparr> ''go.mod'' \<and>
    map comp_Path (DetectComponents
      \<lparr>ReadFile = (\<lambda>p. None), ReadDir = (\<lambda>p. None),
       Stat = [''services/a'' \<mapsto> True, ''go.mod'' \<mapsto> False],
       Glob = (\<lambda>p. if p = ''services/*'' then [''services/a''] else []),
       Tree = (\<lambda>p. Directory [])\<rparr> \<lparr>rootPath = ''.''\<rparr>) = [''services/a'']) \<and>
   map comp_Language (DetectComponents
      \<lparr>ReadFile = (\<lambda>p. None), ReadDir = (\<lambda>p. None), Stat = [''go.mod'' \<mapsto> False],
       Glob = (\<lambda>p. []), Tree = (\<lambda>p. Directory [])\<rparr> \<lparr>rootPath = ''.''\<rparr>) = [''go''] \<and>
   DetectComponents
      \<lparr>ReadFile = (\<lambda>p. None), ReadDir = (\<lambda>p. None), Stat = (\<lambda>p. None),
       Glob = (\<lambda>p. []), Tree = (\<lambda>p. Directory [])\<rparr> \<lparr>rootPath = ''.''\<rparr> = []"
proof -
  let ?both = "\<lparr>ReadFile = (\<lambda>p. None), ReadDir = (\<lambda>p. None),
       Stat = [''services/a'' \<mapsto> True, ''go.mod'' \<mapsto> False],
       Glob = (\<lambda>p. if p = ''services/*'' then [''services/a''] else []),
       Tree = (\<lambda>p. Directory [])\<rparr>"
  let ?single = "\<lparr>ReadFile = (\<lambda>p. None), ReadDir = (\<lambda>p. None), Stat = [''go.mod'' \<mapsto> False],
       Glob = (\<lambda>p. []), Tree = (\<lambda>p. Directory [])\<rparr>"
  let ?none = "\<lparr>ReadFile = (\<lambda>p. None), ReadDir = (\<lambda>p. None), Stat = (\<lambda>p. None),
       Glob = (\<lambda>p. []), Tree = (\<lambda>p. Directory [])\<rparr>"
  let ?d = "\<lparr>rootPath = ''.''\<rparr>"
  have j1: "Join [''.'', ''services/*''] = ''services/*''" by code_simp
  have j2: "Join [''.'', ''go.mod''] = ''go.mod''" by code_simp
  have path: "\<And>os c. comp_Path (enrichComponent os ?d c) = comp_Path c"
    by (simp add: enrichComponent_def Let_def)
  have lang: "\<And>os c. comp_Language (enrichComponent os ?d c) = comp_Language c"
    by (simp add: enrichComponent_def Let_def)
  have mono: "map comp_Path (detectMonorepo ?both ?d) = [''services/a'']"
    by code_simp
  have go: "fileExists ?both ?d ''go.mod''"
    by (simp add: fileExists_def j2)
  have a: "detectMonorepo ?both ?d \<noteq> [] \<and>
      DetectComponents ?both ?d = map (enrichComponent ?both ?d) (detectMonorepo ?both ?d)"
    using DetectComponents_strategy_order
      [where os = ?both and d = ?d and pattern = "''services/*''" and dir = "''services/a''"]
    by (simp add: j1)
  have a': "map comp_Path (DetectComponents ?both ?d) = [''services/a'']"
    using a mono by (simp add: comp_def path)
  have m0: "detectMonorepo ?single ?d = []" by (simp add: detectMonorepo_def)
  obtain c where c: "detectSingleComponent ?single ?d = Some c" and cl: "comp_Language c = ''go''"
    by (simp add: detectSingleComponent_def fileExists_def j2 Let_def)
  have b: "DetectComponents ?single ?d = [enrichComponent ?single ?d c]"
    using DetectComponents_strategy_order [where os = ?single and d = ?d and c = c] m0 c
    by simp
  have b': "map comp_Language (DetectComponents ?single ?d) = [''go'']"
    using b cl by (simp add: lang)
  have m1: "detectMonorepo ?none ?d = []" by (simp add: detectMonorepo_def)
  have s1: "detectSingleComponent ?none ?d = None"
    by (simp add: detectSingleComponent_def fileExists_def dirHasFile_def Let_def)
  have e1: "detectByDirectory ?none ?d = []" by (simp add: detectByDirectory_def)
  have c': "DetectComponents ?none ?d = []"
    using DetectComponents_strategy_order [where os = ?none and d = ?d] m1 s1 e1
    by simp
  from go a' b' c' show ?thesis by blast
qed

text \<open>
  C7.  The single-component strategy commits to the language of the first signature
  found in the fixed order Go, Python, Node, Rust, Java, Ruby, C#; it finds no
  component exactly when no signature is found, and has no error to return.
\<close>

theorem detectSingleComponent_first_signature_wins:
  "map_option comp_Language (detectSingleComponent os d) =
     map_option fst (find snd (manifestSignatures os d))"
  by (simp add: detectSingleComponent_def manifestSignatures_def Let_def)

theorem detectSingleComponent_first_signature_wins_witness:
  "map_option comp_Language (detectSingleComponent
      \<lparr>ReadFile = (\<lambda>p. None), ReadDir = (\<lambda>p. None),
       Stat = [''package.json'' \<mapsto> False, ''Gemfile'' \<mapsto> False, ''pyproject.toml'' \<mapsto> False],
       Glob = (\<lambda>p. []), Tree = (\<lambda>p. Directory [])\<rparr>
      \<lparr>rootPath = ''.''\<rparr>) = Some ''python''"
proof -
  let ?os = "\<lparr>ReadFile = (\<lambda>p. None), ReadDir = (\<lambda>p. None),
       Stat = [''package.json'' \<mapsto> False, ''Gemfile'' \<mapsto> False, ''pyproject.toml'' \<mapsto> False],
       Glob = (\<lambda>p. []), Tree = (\<lambda>p. Directory [])\<rparr>"
  let ?d = "\<lparr>rootPath = ''.''\<rparr>"
  have "map_option fst (find snd (manifestSignatures ?os ?d)) = Some ''python''"
    by code_simp
  then show ?thesis
    using detectSingleComponent_first_signature_wins [of ?os ?d] by simp
qed

section \<open>The tree scanner\<close>

















section \<open>The files of a component\<close>


lemma splitOn_nonempty: "splitOn P s \<noteq> []"
  by (induction s) (auto split: list.splits)

lemma joinWith_splitOn: "joinWith [c] (splitOn (\<lambda>x. x = c) s) = s"
proof (induction s)
  case Nil
  then show ?case by simp
next
  case (Cons x xs)
  obtain piece pieces where sp: "splitOn (\<lambda>x. x = c) xs = piece # pieces"
    using splitOn_nonempty [of "\<lambda>x. x = c" xs] by (cases "splitOn (\<lambda>x. x = c) xs") auto
  show ?case using Cons.IH sp by auto
qed

lemma splitOn_append_sep:
  "P c \<Longrightarrow> splitOn P (xs @ c # ys) = splitOn P xs @ splitOn P ys"
proof (induction xs)
  case Nil
  then show ?case by simp
next
  case (Cons x xs)
  obtain piece pieces where sp: "splitOn P xs = piece # pieces"
    using splitOn_nonempty [of P xs] by (cases "splitOn P xs") auto
  show ?case using Cons sp by simp
qed

lemma splitOn_no_sep: "(\<forall>x \<in> set s. \<not> P x) \<Longrightarrow> splitOn P s = [s]"
  by (induction s) auto

lemma clean_elems_snoc:
  "n \<noteq> [] \<Longrightarrow> n \<noteq> ''.'' \<Longrightarrow> n \<noteq> ''..'' \<Longrightarrow>
   clean_elems r out (es @ [n]) = clean_elems r out es @ [n]"
  by (induction es arbitrary: out) (auto split: list.splits)

lemma joinWith_snoc: "es \<noteq> [] \<Longrightarrow> joinWith sep (es @ [n]) = joinWith sep es @ sep @ n"
  by (induction es) auto

lemma HasPrefix_append: "HasPrefix q p \<Longrightarrow> HasPrefix (q @ r) p"
  unfolding HasPrefix_def
  by (metis append_eq_conv_conj append.assoc append_take_drop_id)

lemma HasPrefix_refl: "HasPrefix p p"
  by (simp add: HasPrefix_def)

lemma HasPrefix_slash_nonempty: "p \<noteq> [] \<Longrightarrow> HasPrefix (p @ r) ''/'' = HasPrefix p ''/''"
  by (cases p) (auto simp: HasPrefix_def)

lemma cleanRelative_nonempty: "cleanRelative p \<Longrightarrow> p \<noteq> []"
  by (auto simp: cleanRelative_def Clean_def)

lemma Clean_child:
  assumes p: "cleanRelative p" and n: "plainName n"
  shows "Clean (p @ ''/'' @ n) = p @ ''/'' @ n"
proof -
  let ?ce = "clean_elems False [] (Split p CHR ''/'')"
  have ne: "p \<noteq> []" using p by (rule cleanRelative_nonempty)
  have unrooted: "\<not> HasPrefix p ''/''" using p by (simp add: cleanRelative_def)
  have "Clean p = p" and "p \<noteq> ''.''" using p by (simp_all add: cleanRelative_def)
  then have kept: "joinWith ''/'' ?ce = p"
    using ne unrooted by (simp add: Clean_def Let_def split: if_splits)
  then have ce: "?ce \<noteq> []" using ne by auto
  have split: "Split (p @ ''/'' @ n) CHR ''/'' = Split p CHR ''/'' @ [n]"
    using n splitOn_append_sep [of "\<lambda>c. c = CHR ''/''" "CHR ''/''" p n]
      splitOn_no_sep [of n "\<lambda>c. c = CHR ''/''"]
    by (auto simp: Split_def plainName_def)
  have "clean_elems False [] (Split (p @ ''/'' @ n) CHR ''/'') = ?ce @ [n]"
    unfolding split using n by (simp add: clean_elems_snoc plainName_def)
  then have "joinWith ''/'' (clean_elems False [] (Split (p @ ''/'' @ n) CHR ''/''))
      = p @ ''/'' @ n"
    using joinWith_snoc [OF ce, of "''/''" n] kept by simp
  moreover have "\<not> HasPrefix (p @ ''/'' @ n) ''/''"
    using unrooted ne HasPrefix_slash_nonempty [of p "''/'' @ n"] by simp
  ultimately show ?thesis
    using ne by (simp add: Clean_def Let_def)
qed

lemma Join_child:
  assumes "cleanRelative p" and "plainName n"
  shows "Join [p, n] = p @ ''/'' @ n"
  using Clean_child [OF assms] cleanRelative_nonempty [OF assms(1)] assms(2)
  by (simp add: Join_def plainName_def)

lemma cleanRelative_child:
  assumes "cleanRelative p" and "plainName n"
  shows "cleanRelative (p @ ''/'' @ n)"
proof -
  have ne: "p \<noteq> []" using assms(1) by (rule cleanRelative_nonempty)
  then have "p @ ''/'' @ n \<noteq> ''.''" by (cases p) auto
  moreover have "\<not> HasPrefix (p @ ''/'' @ n) ''/''"
    using assms(1) ne HasPrefix_slash_nonempty [of p "''/'' @ n"]
    by (simp add: cleanRelative_def)
  ultimately show ?thesis
    using Clean_child [OF assms] unfolding cleanRelative_def by blast
qed

lemma Clean_dot: "Clean ''.'' = ''.''"
  by code_simp

lemma Rel_dot:
  assumes "cleanRelative q"
  shows "Rel ''.'' q = Some q"
proof -
  have ne: "q \<noteq> []" using assms by (rule cleanRelative_nonempty)
  have c: "Clean q = q" "q \<noteq> ''.''" "\<not> HasPrefix q ''/''"
    using assms by (simp_all add: cleanRelative_def)
  then have "q \<noteq> ''/''" by (auto simp: HasPrefix_def)
  then have "relElems q = Split q CHR ''/''" using ne by (simp add: relElems_def)
  then have "joinWith ''/'' (relElems q) = q"
    using joinWith_splitOn [of "CHR ''/''" q] by (simp add: Split_def)
  then show ?thesis
    using c by (simp add: Rel_def Clean_dot Let_def relElems_def HasPrefix_def)
qed


lemma collectFn_keeps_prefix:
  assumes "rootPath d = ''.''" and "cleanRelative q" and "HasPrefix q p"
    and "\<forall>f \<in> set st. HasPrefix f p"
  shows "\<forall>f \<in> set (fst (collectFn d st q info err)). HasPrefix f p"
  using assms by (auto simp: collectFn_def Rel_dot split: option.splits)

lemma walkNames_collect_prefix:
  assumes root: "rootPath d = ''.''" and q: "cleanRelative q" and qp: "HasPrefix q p"
    and names: "\<forall>entry \<in> set entries. plainName (fst entry)"
    and sub: "\<And>name child q' st'. (name, child) \<in> set entries \<Longrightarrow> cleanRelative q' \<Longrightarrow>
        HasPrefix q' p \<Longrightarrow> \<forall>f \<in> set st'. HasPrefix f p \<Longrightarrow>
        \<forall>f \<in> set (fst (walk (collectFn d) q' child st')). HasPrefix f p"
    and st: "\<forall>f \<in> set st. HasPrefix f p"
  shows "\<forall>f \<in> set (fst (walkNames (collectFn d) q entries st)). HasPrefix f p"
  using names sub st
proof (induction entries arbitrary: st)
  case Nil
  then show ?case by simp
next
  case (Cons entry rest)
  obtain name child where entry: "entry = (name, child)" by (cases entry) auto
  have plain: "plainName name" using Cons.prems(1) entry by simp
  have j: "Join [q, name] = q @ ''/'' @ name" by (rule Join_child [OF q plain])
  have cq: "cleanRelative (q @ ''/'' @ name)" by (rule cleanRelative_child [OF q plain])
  have pq: "HasPrefix (q @ ''/'' @ name) p" by (rule HasPrefix_append [OF qp])
  have step: "\<forall>f \<in> set (fst (walkNames (collectFn d) q rest st')). HasPrefix f p"
    if "\<forall>f \<in> set st'. HasPrefix f p" for st'
  proof (rule Cons.IH)
    show "\<forall>entry \<in> set rest. plainName (fst entry)" using Cons.prems(1) by simp
    show "\<forall>f \<in> set st'. HasPrefix f p" by (rule that)
    fix name' child' q' st''
    assume "(name', child') \<in> set rest" and "cleanRelative q'" and "HasPrefix q' p"
      and "\<forall>f \<in> set st''. HasPrefix f p"
    then show "\<forall>f \<in> set (fst (walk (collectFn d) q' child' st'')). HasPrefix f p"
      using Cons.prems(2) [of name' child' q' st''] by simp
  qed
  show ?case
  proof (cases "child = NoLstat")
    case True
    have "collectFn d st (q @ ''/'' @ name) None (Some (LstatFailed (q @ ''/'' @ name)))
        = (st, Continue)"
      by (simp add: collectFn_def)
    then show ?thesis
      using True entry j step [OF Cons.prems(3)] by (simp add: Let_def)
  next
    case False
    obtain st' r where w: "walk (collectFn d) (q @ ''/'' @ name) child st = (st', r)"
      by (cases "walk (collectFn d) (q @ ''/'' @ name) child st") auto
    have "\<forall>f \<in> set (fst (walk (collectFn d) (q @ ''/'' @ name) child st)). HasPrefix f p"
      using Cons.prems(2) [of name child "q @ ''/'' @ name" st] entry cq pq Cons.prems(3)
      by simp
    then have st': "\<forall>f \<in> set st'. HasPrefix f p" using w by simp
    have "walkNames (collectFn d) q (entry # rest) st =
        (case r of
           Continue \<Rightarrow> walkNames (collectFn d) q rest st'
         | SkipDir \<Rightarrow> if IsDir (lstat child) then walkNames (collectFn d) q rest st'
                      else (st', SkipDir)
         | Failed err \<Rightarrow> (st', Failed err))"
      using False entry j w by (cases child) (simp_all add: Let_def)
    then show ?thesis
      using step [OF st'] st' by (cases r) auto
  qed
qed

lemma walk_collect_prefix:
  assumes root: "rootPath d = ''.''"
  shows "plainNames t \<Longrightarrow> cleanRelative q \<Longrightarrow> HasPrefix q p \<Longrightarrow>
    \<forall>f \<in> set st. HasPrefix f p \<Longrightarrow>
    \<forall>f \<in> set (fst (walk (collectFn d) q t st)). HasPrefix f p"
proof (induction t arbitrary: q st)
  case (File sz)
  then show ?case using collectFn_keeps_prefix [OF root] by simp
next
  case (Directory entries)
  have dir: "collectFn d st q (Some (Info True 0)) None =
      (st, if Base q = ''node_modules'' \<or> Base q = ''vendor'' \<or> Base q = ''.git''
           then SkipDir else Continue)"
    by (simp add: collectFn_def)
  have names: "\<forall>f \<in> set (fst (walkNames (collectFn d) q entries st)). HasPrefix f p"
  proof (rule walkNames_collect_prefix [OF root Directory.prems(2) Directory.prems(3)])
    show "\<forall>entry \<in> set entries. plainName (fst entry)" using Directory.prems(1) by simp
    show "\<forall>f \<in> set st. HasPrefix f p" by (rule Directory.prems(4))
    fix name child q' st'
    assume mem: "(name, child) \<in> set entries" and q': "cleanRelative q'"
      and p': "HasPrefix q' p" and st': "\<forall>f \<in> set st'. HasPrefix f p"
    have pn: "plainNames child" using Directory.prems(1) mem by auto
    have "child \<in> Basic_BNFs.snds (name, child)" by simp
    from Directory.IH [OF mem this pn q' p' st']
    show "\<forall>f \<in> set (fst (walk (collectFn d) q' child st')). HasPrefix f p" .
  qed
  show ?case
    using names Directory.prems(4) by (simp add: dir)
next
  case Unlistable
  then show ?case by (simp add: collectFn_def)
next
  case NoLstat
  then show ?case by (simp add: collectFn_def)
qed

lemma collectComponentFiles_prefix:
  assumes "rootPath d = ''.''" and "cleanRelative path" and "plainNames (Tree os path)"
  shows "\<forall>f \<in> set (collectComponentFiles os d path). HasPrefix f path"
proof -
  have "\<forall>f \<in> set (fst (walk (collectFn d) path (Tree os path) [])). HasPrefix f path"
    by (rule walk_collect_prefix [OF assms(1) assms(3) assms(2) HasPrefix_refl]) simp
  then show ?thesis
    by (simp add: collectComponentFiles_def Walk_def split: prod.splits walk_result.splits)
qed

lemma enrichComponent_Path_Files:
  "comp_Path (enrichComponent os d c) = comp_Path c"
  "comp_Files (enrichComponent os d c) = collectComponentFiles os d (comp_Path c)"
  by (simp_all add: enrichComponent_def Let_def)

text \<open>
  C6, as the claim states it, fails for the single-component strategy: the component's
  path is \<open>.\<close>, and its files are paths relative to the root with no \<open>./\<close> in
  front, of which \<open>.\<close> is no prefix.
\<close>

theorem DetectComponents_single_component_files:
  "map (\<lambda>c. (comp_Path c, comp_Files c))
     (DetectComponents
        \<lparr>ReadFile = (\<lambda>p. None), ReadDir = (\<lambda>p. None), Stat = [''go.mod'' \<mapsto> False],
         Glob = (\<lambda>p. []),
         Tree = (\<lambda>p. Directory [(''go.mod'', File 20), (''main.go'', File 10)])\<rparr>
        \<lparr>rootPath = ''.''\<rparr>)
   = [(''.'', [''main.go''])] \<and>
   \<not> HasPrefix ''main.go'' ''.''"
  by code_simp

text \<open>
  C6, amended.  With the detector rooted at \<open>.\<close> (as the program roots it), for every
  component that \<open>DetectComponents\<close> returns whose path is a clean relative path other
  than \<open>.\<close>, the path is a prefix of every entry of its files, the names in the
  directory listings being plain names.  For a component whose path is \<open>.\<close> the
  entries are paths relative to the root and carry no such prefix.
\<close>

theorem DetectComponents_files_under_path:
  "rootPath d = ''.'' \<and> c \<in> set (DetectComponents os d) \<and> cleanRelative (comp_Path c) \<and>
   plainNames (Tree os (comp_Path c)) \<longrightarrow>
   (\<forall>f \<in> set (comp_Files c). HasPrefix f (comp_Path c))"
proof
  assume h: "rootPath d = ''.'' \<and> c \<in> set (DetectComponents os d) \<and>
    cleanRelative (comp_Path c) \<and> plainNames (Tree os (comp_Path c))"
  then obtain c0 where c: "c = enrichComponent os d c0"
    by (auto simp: DetectComponents_def Let_def split: if_splits option.splits)
  have "\<forall>f \<in> set (collectComponentFiles os d (comp_Path c0)). HasPrefix f (comp_Path c0)"
    using h c collectComponentFiles_prefix [of d "comp_Path c0" os]
    by (simp add: enrichComponent_Path_Files)
  then show "\<forall>f \<in> set (comp_Files c). HasPrefix f (comp_Path c)"
    by (simp add: c enrichComponent_Path_Files)
qed

theorem DetectComponents_files_under_path_witness:
  "list_all (\<lambda>f. HasPrefix f ''services/a'')
     (comp_Files (hd (DetectComponents
        \<lparr>ReadFile = (\<lambda>p. None), ReadDir = (\<lambda>p. None), Stat = [''services/a'' \<mapsto> True],
         Glob = (\<lambda>p. if p = ''services/*'' then [''services/a''] else []),
         Tree = (\<lambda>p. Directory [(''README.md'', File 2), (''main.go'', File 10),
                                 (''pkg'', Directory [(''util.go'', File 3)])])\<rparr>
        \<lparr>rootPath = ''.''\<rparr>))) \<and>
   comp_Files (hd (DetectComponents
        \<lparr>ReadFile = (\<lambda>p. None), ReadDir = (\<lambda>p. None), Stat = [''services/a'' \<mapsto> True],
         Glob = (\<lambda>p. if p = ''services/*'' then [''services/a''] else []),
         Tree = (\<lambda>p. Directory [(''README.md'', File 2), (''main.go'', File 10),
                                 (''pkg'', Directory [(''util.go'', File 3)])])\<rparr>
        \<lparr>rootPath = ''.''\<rparr>))
   = [''services/a/main.go'', ''services/a/pkg/util.go'']"
proof -
  let ?os = "\<lparr>ReadFile = (\<lambda>p. None), ReadDir = (\<lambda>p. None), Stat = [''services/a'' \<mapsto> True],
         Glob = (\<lambda>p. if p = ''services/*'' then [''services/a''] else []),
         Tree = (\<lambda>p. Directory [(''README.md'', File 2), (''main.go'', File 10),
                                 (''pkg'', Directory [(''util.go'', File 3)])])\<rparr>"
  let ?d = "\<lparr>rootPath = ''.''\<rparr>"
  let ?c = "hd (DetectComponents ?os ?d)"
  have ne: "DetectComponents ?os ?d \<noteq> []" by code_simp
  then have mem: "?c \<in> set (DetectComponents ?os ?d)" by simp
  have path: "comp_Path ?c = ''services/a''" by code_simp
  have clean: "cleanRelative ''services/a''" by code_simp
  have plain: "plainNames (Tree ?os ''services/a'')" by (simp add: plainName_def)
  have files: "comp_Files ?c = [''services/a/main.go'', ''services/a/pkg/util.go'']"
    by code_simp
  have "\<forall>f \<in> set (comp_Files ?c). HasPrefix f (comp_Path ?c)"
    using DetectComponents_files_under_path [where d = ?d and os = ?os and c = ?c]
      mem clean plain unfolding path by simp
  then have "list_all (\<lambda>f. HasPrefix f ''services/a'') (comp_Files ?c)"
    unfolding path by (simp add: list_all_iff)
  with files show ?thesis by simp
qed


end
